theory Spec2Isabelle
  imports Main "HOL-Library.Word" "HOL-Library.AList" "HOL-Library.Sublist"
begin

unbundle bit_operations_syntax

section \<open>Values of the source language\<close>

text \<open>
  The compiler is JavaScript. Its strings are sequences of 16-bit code units, its buffers
  are sequences of bytes. Numbers are modelled as integers (the integer-valued doubles)
  together with \<open>NaN\<close>; fractional and infinite numbers are outside the model, and
  \<open>-0\<close> is identified with \<open>0\<close> (the compiler never distinguishes them).
  Objects and arrays are ordered association lists and lists; the AST that the external
  parser (acorn) hands to the compiler is such a tree of objects, each node carrying a
  \<open>type\<close> property.
\<close>

type_synonym byte = "8 word"
type_synonym jsstring = "16 word list"

definition js :: "string \<Rightarrow> jsstring" where
  "js s = map (\<lambda>c. of_nat (of_char c)) s"

datatype jv = JUndef | JNull | JBool bool | JNum int | JNaN | JStr jsstring
  | JArr "jv list" | JObj "(jsstring \<times> jv) list"

text \<open>
  Errors are values. \<open>TypeError\<close> and \<open>RangeError\<close> are the runtime's exceptions,
  \<open>Error msg\<close> is \<open>throw new Error(msg)\<close>. \<open>OutsideModel\<close> is no JavaScript error:
  it marks the inputs on which this embedding gives no verdict (a value that is not a
  string reaching the string table, a numeric or \<open>__proto__\<close> property key), so that
  no theorem below says anything about them.
\<close>

datatype error = TypeError | RangeError | Error string | OutsideModel

fun truthy :: "jv \<Rightarrow> bool" where
  "truthy JUndef = False"
| "truthy JNull = False"
| "truthy (JBool b) = b"
| "truthy (JNum n) = (n \<noteq> 0)"
| "truthy JNaN = False"
| "truthy (JStr s) = (s \<noteq> [])"
| "truthy (JArr _) = True"
| "truthy (JObj _) = True"

text \<open>\<open>typeof v === 'object'\<close> for a truthy \<open>v\<close>.\<close>

fun is_object :: "jv \<Rightarrow> bool" where
  "is_object (JArr _) = True"
| "is_object (JObj _) = True"
| "is_object _ = False"

text \<open>
  Property read \<open>v.k\<close>. A missing property is \<open>undefined\<close>. Reading a property of
  \<open>undefined\<close> or \<open>null\<close> raises in JavaScript; on the trees acorn builds the
  compiler does so at one place only (the key of a spread element inside an object
  literal), which \<open>parseProps\<close> below checks explicitly. Everywhere else the read is
  on a child that acorn always supplies, and \<open>getp\<close> is the plain lookup.
\<close>

fun getp :: "jsstring \<Rightarrow> jv \<Rightarrow> jv" where
  "getp k (JObj ps) = (case map_of ps k of Some v \<Rightarrow> v | None \<Rightarrow> JUndef)"
| "getp k _ = JUndef"

definition node_type :: "jv \<Rightarrow> jv" where
  "node_type n = getp (js ''type'') n"

definition has_type :: "string \<Rightarrow> jv \<Rightarrow> bool" where
  "has_type t n = (node_type n = JStr (js t))"

text \<open>The elements of an array-valued property (\<open>arguments\<close>, \<open>properties\<close>, ...).\<close>

fun elems :: "jv \<Rightarrow> jv list" where
  "elems (JArr xs) = xs"
| "elems _ = []"

text \<open>
  \<open>ToNumber\<close>: \<open>None\<close> is \<open>NaN\<close>. On strings, arrays and objects the conversion goes
  through the runtime's numeric-string grammar; it is the parameter \<open>tn\<close> of the model,
  and every theorem holds for all its behaviours.
\<close>

type_synonym coercion = "jv \<Rightarrow> int option"

fun to_number :: "coercion \<Rightarrow> jv \<Rightarrow> int option" where
  "to_number tn JUndef = None"
| "to_number tn JNull = Some 0"
| "to_number tn (JBool b) = Some (if b then 1 else 0)"
| "to_number tn (JNum n) = Some n"
| "to_number tn JNaN = None"
| "to_number tn v = tn v"

text \<open>\<open>ToInt32\<close> and the operator \<open>a | b\<close>, whose result is a signed 32-bit integer.\<close>

definition to_int32 :: "int option \<Rightarrow> 32 word" where
  "to_int32 x = (case x of None \<Rightarrow> 0 | Some n \<Rightarrow> word_of_int n)"

definition js_or :: "int option \<Rightarrow> int option \<Rightarrow> int" where
  "js_or a b = sint (to_int32 a OR to_int32 b)"

text \<open>Unary minus \<open>-v\<close>.\<close>

definition js_neg :: "coercion \<Rightarrow> jv \<Rightarrow> jv" where
  "js_neg tn v = (case to_number tn v of None \<Rightarrow> JNaN | Some n \<Rightarrow> JNum (- n))"

text \<open>\<open>typeof v === 'number'\<close> and \<open>typeof v === 'string'\<close>.\<close>

fun is_number :: "jv \<Rightarrow> bool" where
  "is_number (JNum _) = True"
| "is_number JNaN = True"
| "is_number _ = False"

fun is_string :: "jv \<Rightarrow> bool" where
  "is_string (JStr _) = True"
| "is_string _ = False"

subsection \<open>UTF-8\<close>

text \<open>
  \<open>Buffer.from(s, 'utf8')\<close>, one chunk of bytes per character: a code unit below
  \<open>0x80\<close> is one byte, below \<open>0x800\<close> two, a surrogate pair four, a lone surrogate
  the replacement character \<open>EF BF BD\<close>, anything else three.
\<close>

definition is_high_surrogate :: "16 word \<Rightarrow> bool" where
  "is_high_surrogate c = (0xD800 \<le> unat c \<and> unat c \<le> 0xDBFF)"

definition is_low_surrogate :: "16 word \<Rightarrow> bool" where
  "is_low_surrogate c = (0xDC00 \<le> unat c \<and> unat c \<le> 0xDFFF)"

definition utf8_1 :: "nat \<Rightarrow> byte list" where
  "utf8_1 u = [of_nat u]"

definition utf8_2 :: "nat \<Rightarrow> byte list" where
  "utf8_2 u = [of_nat (0xC0 + u div 64), of_nat (0x80 + u mod 64)]"

definition utf8_3 :: "nat \<Rightarrow> byte list" where
  "utf8_3 u = [of_nat (0xE0 + u div 4096), of_nat (0x80 + (u div 64) mod 64),
               of_nat (0x80 + u mod 64)]"

definition utf8_4 :: "nat \<Rightarrow> byte list" where
  "utf8_4 u = [of_nat (0xF0 + u div 262144), of_nat (0x80 + (u div 4096) mod 64),
               of_nat (0x80 + (u div 64) mod 64), of_nat (0x80 + u mod 64)]"

fun utf8_chars :: "jsstring \<Rightarrow> byte list list" where
  "utf8_chars [] = []"
| "utf8_chars [c] =
     (if unat c < 0x80 then [utf8_1 (unat c)]
      else if unat c < 0x800 then [utf8_2 (unat c)]
      else if is_high_surrogate c \<or> is_low_surrogate c then [[0xEF, 0xBF, 0xBD]]
      else [utf8_3 (unat c)])"
| "utf8_chars (c # d # cs) =
     (if unat c < 0x80 then utf8_1 (unat c) # utf8_chars (d # cs)
      else if unat c < 0x800 then utf8_2 (unat c) # utf8_chars (d # cs)
      else if is_high_surrogate c \<and> is_low_surrogate d
        then utf8_4 (0x10000 + (unat c - 0xD800) * 1024 + (unat d - 0xDC00)) # utf8_chars cs
      else if is_high_surrogate c \<or> is_low_surrogate c
        then [0xEF, 0xBF, 0xBD] # utf8_chars (d # cs)
      else utf8_3 (unat c) # utf8_chars (d # cs))"

definition utf8 :: "jsstring \<Rightarrow> byte list" where
  "utf8 s = concat (utf8_chars s)"

text \<open>\<open>Buffer.from(s + '\0', 'utf8')\<close>: the NUL-terminated encoding of a string.\<close>

definition cstring :: "jsstring \<Rightarrow> byte list" where
  "cstring s = utf8 (s @ [0])"

subsection \<open>Buffers\<close>

text \<open>Overwriting \<open>bs\<close> into a buffer at offset \<open>off\<close> (the buffer keeps its length).\<close>

definition put :: "nat \<Rightarrow> byte list \<Rightarrow> byte list \<Rightarrow> byte list" where
  "put off bs buf = take off buf @ take (length buf - off) bs @ drop (off + length bs) buf"

definition le16 :: "nat \<Rightarrow> byte list" where
  "le16 v = [of_nat v, of_nat (v div 256)]"

definition le32 :: "nat \<Rightarrow> byte list" where
  "le32 v = [of_nat v, of_nat (v div 256), of_nat (v div 65536), of_nat (v div 16777216)]"

text \<open>
  \<open>buf.writeUInt32LE(value, offset)\<close>, \<open>writeUInt16LE\<close> and \<open>writeUInt8\<close>: the value
  is first converted with \<open>+value\<close>; a number outside the range raises
  \<open>RangeError\<close>; \<open>NaN\<close> passes the range check and is stored as zero bytes.
\<close>

definition writeUInt32LE :: "int option \<Rightarrow> nat \<Rightarrow> byte list \<Rightarrow> error + byte list" where
  "writeUInt32LE value off buf =
     (case value of
        None \<Rightarrow> Inr (put off (le32 0) buf)
      | Some v \<Rightarrow> if v > 0xFFFFFFFF \<or> v < 0 then Inl RangeError
                  else Inr (put off (le32 (nat v)) buf))"

definition writeUInt16LE :: "int option \<Rightarrow> nat \<Rightarrow> byte list \<Rightarrow> error + byte list" where
  "writeUInt16LE value off buf =
     (case value of
        None \<Rightarrow> Inr (put off (le16 0) buf)
      | Some v \<Rightarrow> if v > 0xFFFF \<or> v < 0 then Inl RangeError
                  else Inr (put off (le16 (nat v)) buf))"

definition writeUInt8 :: "int option \<Rightarrow> nat \<Rightarrow> byte list \<Rightarrow> error + byte list" where
  "writeUInt8 value off buf =
     (case value of
        None \<Rightarrow> Inr (put off [0] buf)
      | Some v \<Rightarrow> if v > 0xFF \<or> v < 0 then Inl RangeError
                  else Inr (put off [of_nat (nat v)] buf))"

text \<open>\<open>buf.readUInt32LE(offset)\<close> on a buffer that holds the four bytes.\<close>

definition readUInt32LE :: "byte list \<Rightarrow> nat \<Rightarrow> nat" where
  "readUInt32LE buf off =
     unat (buf ! off) + 256 * unat (buf ! (off + 1)) + 65536 * unat (buf ! (off + 2))
       + 16777216 * unat (buf ! (off + 3))"

text \<open>
  \<open>buf.write(s, offset, 'utf8')\<close>: the encoded characters are written as long as they
  fit into the rest of the buffer; a character that does not fit whole is not written.
\<close>

fun fitting :: "nat \<Rightarrow> byte list list \<Rightarrow> byte list list" where
  "fitting n [] = []"
| "fitting n (c # cs) = (if length c \<le> n then c # fitting (n - length c) cs else [])"

definition buf_write :: "jsstring \<Rightarrow> nat \<Rightarrow> byte list \<Rightarrow> byte list" where
  "buf_write s off buf = put off (concat (fitting (length buf - off) (utf8_chars s))) buf"

text \<open>Sequencing of operations that may raise.\<close>

definition bind :: "error + 'a \<Rightarrow> ('a \<Rightarrow> error + 'b) \<Rightarrow> error + 'b" where
  "bind m f = (case m of Inl e \<Rightarrow> Inl e | Inr x \<Rightarrow> f x)"

fun foldM :: "('a \<Rightarrow> 's \<Rightarrow> error + 's) \<Rightarrow> 'a list \<Rightarrow> 's \<Rightarrow> error + 's" where
  "foldM f [] s = Inr s"
| "foldM f (x # xs) s = (case f x s of Inl e \<Rightarrow> Inl e | Inr s' \<Rightarrow> foldM f xs s')"

section \<open>Constants\<close>

text \<open>The capability bits of \<open>CAPABILITIES\<close>.\<close>

definition CAP_COMMAND :: int where "CAP_COMMAND = 0x00000001"
definition CAP_DRIVER :: int where "CAP_DRIVER = 0x00000002"
definition CAP_FILESYSTEM :: int where "CAP_FILESYSTEM = 0x00000004"
definition CAP_NETWORK :: int where "CAP_NETWORK = 0x00000008"
definition CAP_ENVVAR :: int where "CAP_ENVVAR = 0x00000010"
definition CAP_PROCESS :: int where "CAP_PROCESS = 0x00000020"
definition CAP_MEMORY :: int where "CAP_MEMORY = 0x00000040"
definition CAP_IRQ :: int where "CAP_IRQ = 0x00000080"
definition CAP_IO_PORT :: int where "CAP_IO_PORT = 0x00000100"
definition CAP_PCI :: int where "CAP_PCI = 0x00000200"
definition CAP_TIMER :: int where "CAP_TIMER = 0x00000400"
definition CAP_LOG :: int where "CAP_LOG = 0x00000800"
definition CAP_SYSINFO :: int where "CAP_SYSINFO = 0x00001000"
definition CAP_USER :: int where "CAP_USER = 0x00002000"
definition CAP_DEBUG :: int where "CAP_DEBUG = 0x00010000"
definition CAP_IPC :: int where "CAP_IPC = 0x00020000"
definition CAP_CRYPTO :: int where "CAP_CRYPTO = 0x00040000"

lemmas CAP_defs = CAP_COMMAND_def CAP_DRIVER_def CAP_FILESYSTEM_def CAP_NETWORK_def
  CAP_ENVVAR_def CAP_PROCESS_def CAP_MEMORY_def CAP_IRQ_def CAP_IO_PORT_def CAP_PCI_def
  CAP_TIMER_def CAP_LOG_def CAP_SYSINFO_def CAP_USER_def CAP_DEBUG_def CAP_IPC_def
  CAP_CRYPTO_def

text \<open>
  \<open>API_FUNCTIONS\<close>: method name, required capability, argument count, in the order of
  the object literal (the order \<open>Object.keys\<close> returns).
\<close>

definition API_FUNCTIONS :: "(jsstring \<times> int \<times> nat) list" where
  "API_FUNCTIONS = map (\<lambda>(n, c, a). (js n, c, a)) [
    (''log'', CAP_LOG, 2), (''info'', CAP_LOG, 1), (''warn'', CAP_LOG, 1),
    (''error'', CAP_LOG, 1), (''debug'', CAP_DEBUG, 1), (''hexdump'', CAP_DEBUG, 2),
    (''malloc'', CAP_MEMORY, 1), (''calloc'', CAP_MEMORY, 2), (''realloc'', CAP_MEMORY, 2),
    (''free'', CAP_MEMORY, 1), (''allocPage'', CAP_MEMORY, 0),
    (''freePage'', CAP_MEMORY, 1), (''registerCommand'', CAP_COMMAND, 1),
    (''unregisterCommand'', CAP_COMMAND, 1), (''getenv'', CAP_ENVVAR, 1),
    (''setenv'', CAP_ENVVAR, 2), (''unsetenv'', CAP_ENVVAR, 1),
    (''registerDriver'', CAP_DRIVER, 1), (''unregisterDriver'', CAP_DRIVER, 1),
    (''registerFS'', CAP_FILESYSTEM, 1), (''unregisterFS'', CAP_FILESYSTEM, 1),
    (''open'', CAP_FILESYSTEM, 2), (''close'', CAP_FILESYSTEM, 1),
    (''read'', CAP_FILESYSTEM, 3), (''write'', CAP_FILESYSTEM, 3),
    (''seek'', CAP_FILESYSTEM, 3), (''registerNetif'', CAP_NETWORK, 2),
    (''unregisterNetif'', CAP_NETWORK, 1), (''netifReceive'', CAP_NETWORK, 3),
    (''registerIRQ'', CAP_IRQ, 3), (''unregisterIRQ'', CAP_IRQ, 1),
    (''enableIRQ'', CAP_IRQ, 1), (''disableIRQ'', CAP_IRQ, 1), (''outb'', CAP_IO_PORT, 2),
    (''outw'', CAP_IO_PORT, 2), (''outl'', CAP_IO_PORT, 2), (''inb'', CAP_IO_PORT, 1),
    (''inw'', CAP_IO_PORT, 1), (''inl'', CAP_IO_PORT, 1), (''ioWait'', CAP_IO_PORT, 0),
    (''pciFindDevice'', CAP_PCI, 2), (''pciFindClass'', CAP_PCI, 2),
    (''pciReadConfig'', CAP_PCI, 2), (''pciWriteConfig'', CAP_PCI, 3),
    (''pciEnableBusmaster'', CAP_PCI, 1), (''createTimer'', CAP_TIMER, 3),
    (''startTimer'', CAP_TIMER, 1), (''stopTimer'', CAP_TIMER, 1),
    (''destroyTimer'', CAP_TIMER, 1), (''getTicks'', CAP_TIMER, 0),
    (''sleep'', CAP_TIMER, 1), (''spawn'', CAP_PROCESS, 3), (''kill'', CAP_PROCESS, 2),
    (''getpid'', CAP_PROCESS, 0), (''yield'', CAP_PROCESS, 0),
    (''getSysinfo'', CAP_SYSINFO, 0), (''getKernelVersion'', CAP_SYSINFO, 0),
    (''ipcSend'', CAP_IPC, 3), (''ipcReceive'', CAP_IPC, 2),
    (''ipcCreateChannel'', CAP_IPC, 1), (''ipcDestroyChannel'', CAP_IPC, 1),
    (''sha256'', CAP_CRYPTO, 2), (''randomBytes'', CAP_CRYPTO, 2),
    (''getCurrentUID'', CAP_USER, 0), (''getUsername'', CAP_USER, 1),
    (''checkPermission'', CAP_USER, 2)]"

text \<open>
  \<open>API_FUNCTIONS[method]\<close>. A name inherited from \<open>Object.prototype\<close> also reads as
  a truthy value, but one without \<open>capability\<close>, which leaves the mask unchanged: for
  the mask it behaves as a name that is not in the table.
\<close>

definition api_capability :: "jv \<Rightarrow> int option" where
  "api_capability m =
     (case m of JStr s \<Rightarrow> map_option fst (map_of API_FUNCTIONS s) | _ \<Rightarrow> None)"

text \<open>The opcodes of \<open>OPCODES\<close> that the compiler names.\<close>

definition OP_NOP :: int where "OP_NOP = 0x00"
definition OP_PUSH :: int where "OP_PUSH = 0x01"
definition OP_PUSH_STR :: int where "OP_PUSH_STR = 0x02"
definition OP_PUSH_ARG :: int where "OP_PUSH_ARG = 0x03"
definition OP_POP :: int where "OP_POP = 0x04"
definition OP_DUP :: int where "OP_DUP = 0x05"
definition OP_SWAP :: int where "OP_SWAP = 0x06"
definition OP_LOAD_LOCAL :: int where "OP_LOAD_LOCAL = 0x10"
definition OP_STORE_LOCAL :: int where "OP_STORE_LOCAL = 0x11"
definition OP_ADD :: int where "OP_ADD = 0x20"
definition OP_JMP :: int where "OP_JMP = 0x50"
definition OP_JZ :: int where "OP_JZ = 0x51"
definition OP_JNZ :: int where "OP_JNZ = 0x52"
definition OP_CALL :: int where "OP_CALL = 0x53"
definition OP_CALL_API :: int where "OP_CALL_API = 0x54"
definition OP_RET :: int where "OP_RET = 0x55"
definition OP_HALT :: int where "OP_HALT = 0x7F"

lemmas OP_defs = OP_NOP_def OP_PUSH_def OP_PUSH_STR_def OP_PUSH_ARG_def OP_POP_def
  OP_DUP_def OP_SWAP_def OP_LOAD_LOCAL_def OP_STORE_LOCAL_def OP_ADD_def OP_JMP_def
  OP_JZ_def OP_JNZ_def OP_CALL_def OP_CALL_API_def OP_RET_def OP_HALT_def

text \<open>
  The opcodes the code generator emits as a single byte: arithmetic \<open>ADD\<close> ...
  \<open>DEC\<close>, bitwise \<open>AND\<close> ... \<open>SHR\<close>, comparison \<open>EQ\<close> ... \<open>GE\<close>, and \<open>POP\<close>,
  \<open>DUP\<close>, \<open>SWAP\<close>, \<open>NOP\<close>, \<open>HALT\<close>.
\<close>

definition plain_opcodes :: "int list" where
  "plain_opcodes = [0x20, 0x21, 0x22, 0x23, 0x24, 0x25, 0x26, 0x27,
                    0x30, 0x31, 0x32, 0x33, 0x34, 0x35,
                    0x40, 0x41, 0x42, 0x43, 0x44, 0x45,
                    OP_POP, OP_DUP, OP_SWAP, OP_NOP, OP_HALT]"

section \<open>The intermediate representation\<close>

text \<open>
  An IR instruction is an object \<open>{op, ...}\<close>; one constructor per shape. \<open>Push\<close>,
  \<open>PushStr\<close>, \<open>StoreLocal\<close>, \<open>LoadLocal\<close>, \<open>Call\<close>, \<open>CallApi\<close>, \<open>Ret\<close> and
  \<open>Op OP_POP\<close> are the shapes the parser builds; \<open>PushArg\<close>, \<open>Jump\<close> (for \<open>JMP\<close>,
  \<open>JZ\<close>, \<open>JNZ\<close>, with its label and numeric target) and the other \<open>Op\<close>s are the
  further shapes the code generator accepts. \<open>Op c\<close> stands for an instruction whose
  opcode \<open>c\<close> is none of those that carry operands.
\<close>

datatype instr =
    Push jv
  | PushArg int
  | PushStr jsstring
  | StoreLocal jv jv
  | LoadLocal jv
  | Call jv nat
  | CallApi jv nat
  | Ret
  | Jump int "jsstring option" int
  | Op int

fun instr_op :: "instr \<Rightarrow> int" where
  "instr_op (Push _) = OP_PUSH"
| "instr_op (PushArg _) = OP_PUSH_ARG"
| "instr_op (PushStr _) = OP_PUSH_STR"
| "instr_op (StoreLocal _ _) = OP_STORE_LOCAL"
| "instr_op (LoadLocal _) = OP_LOAD_LOCAL"
| "instr_op (Call _ _) = OP_CALL"
| "instr_op (CallApi _ _) = OP_CALL_API"
| "instr_op Ret = OP_RET"
| "instr_op (Jump c _ _) = c"
| "instr_op (Op c) = c"

record irFunc =
  fn_name :: jsstring
  fn_params :: "jv list"
  fn_instructions :: "instr list"
  fn_locals :: "jv list"
  fn_isInit :: bool
  fn_isExit :: bool

record ir =
  ir_strings :: "jsstring list"
  ir_functions :: "irFunc list"

text \<open>A command record as \<open>extractCommands\<close> builds it (without its source location).\<close>

record command =
  cmd_name :: jsstring
  cmd_syntax :: jsstring
  cmd_description :: jsstring
  cmd_category :: jsstring
  cmd_handler :: jv

text \<open>An extracted function: its name, its AST node, its parameter names.\<close>

record funcInfo =
  fi_name :: jv
  fi_node :: jv
  fi_params :: "jv list"
  fi_isExport :: bool

record apiCall =
  ac_method :: jv
  ac_args :: "jv list"

text \<open>
  What \<open>AKMParser.parse\<close> returns: only \<open>errors\<close> and \<open>warnings\<close> when acorn
  rejected the source (\<open>ParseErrors\<close>), the extracted module otherwise. Warnings are
  not modelled: nothing in the compiler reads them.
\<close>

record parsed =
  pr_moduleConfig :: "(jsstring \<times> jv) list"
  pr_functions :: "(jsstring \<times> funcInfo) list"
  pr_commands :: "command list"
  pr_apiCalls :: "apiCall list"
  pr_ir :: ir

datatype parseResult = ParseErrors | Parsed parsed

section \<open>Parser: \<open>AKMParser\<close>\<close>

subsection \<open>\<open>walkAST\<close>\<close>

text \<open>
  \<open>walkAST(node, visitor)\<close> calls the visitor on the node and then descends, in
  property order and skipping \<open>loc\<close>, \<open>range\<close>, \<open>start\<close> and \<open>end\<close>, into every
  object of an array-valued property and into every object-valued property that has a
  \<open>type\<close>. No visitor changes the tree, so the walk is modelled by the list of nodes in
  the order the visitor sees them; each visitor is then a fold over that list.
\<close>

definition skipped_key :: "jsstring \<Rightarrow> bool" where
  "skipped_key k = (k = js ''loc'' \<or> k = js ''range'' \<or> k = js ''start'' \<or> k = js ''end'')"

fun walkAST :: "jv \<Rightarrow> jv list" where
  "walkAST (JObj ps) = JObj ps # concat (map (\<lambda>(k, child).
       if skipped_key k then []
       else (case child of
               JArr items \<Rightarrow>
                 concat (map (\<lambda>item. if is_object item then walkAST item else []) items)
             | JObj cps \<Rightarrow> if truthy (node_type child) then walkAST child else []
             | _ \<Rightarrow> [])) ps)"
| "walkAST (JArr xs) = JArr xs # concat (map (\<lambda>child.
       (case child of
               JArr items \<Rightarrow>
                 concat (map (\<lambda>item. if is_object item then walkAST item else []) items)
             | JObj cps \<Rightarrow> if truthy (node_type child) then walkAST child else []
             | _ \<Rightarrow> [])) xs)"
| "walkAST v = (if truthy v then [v] else [])"

subsection \<open>\<open>evaluateLiteral\<close> and \<open>parseObjectExpression\<close>\<close>

lemma size_map_of:
  "map_of ps k = Some v \<Longrightarrow> size v < Suc (size_list (size_prod (\<lambda>_. 0) size) ps)"
  by (induction ps) (auto split: if_splits)

lemma size_getp: "getp k n \<noteq> JUndef \<Longrightarrow> size (getp k n) < size n"
  by (cases n) (auto split: option.splits dest: size_map_of)

text \<open>
  The restricted constant evaluator. A literal evaluates to its value, a template literal
  to the concatenation of its raw quasis, an identifier to the sentinel \<open>{ref: name}\<close>,
  a negation to the negated operand; everything else, a \<open>BinaryExpression\<close> included
  (``could evaluate simple constant expressions''), to \<open>null\<close>.
\<close>

function evaluateLiteral :: "coercion \<Rightarrow> jv \<Rightarrow> jv" where
  "evaluateLiteral tn node =
     (if \<not> truthy node then JNull
      else if has_type ''Literal'' node then getp (js ''value'') node
      else if has_type ''TemplateLiteral'' node then
        JStr (concat (map (\<lambda>q. case getp (js ''raw'') (getp (js ''value'') q) of
                                  JStr s \<Rightarrow> s | _ \<Rightarrow> [])
                          (elems (getp (js ''quasis'') node))))
      else if has_type ''Identifier'' node then JObj [(js ''ref'', getp (js ''name'') node)]
      else if has_type ''UnaryExpression'' node then
        (if getp (js ''operator'') node = JStr (js ''-'')
         then js_neg tn (evaluateLiteral tn (getp (js ''argument'') node))
         else JNull)
      else JNull)"
  by pat_completeness auto
termination
proof (relation "measure (\<lambda>(tn, node). size node)")
  show "wf (measure (\<lambda>(tn, node). size node))" by simp
next
  fix tn :: coercion and node :: jv
  assume "\<not> \<not> truthy node" "has_type ''UnaryExpression'' node"
  then obtain ps where n: "node = JObj ps"
    by (cases node) (auto simp: has_type_def node_type_def)
  show "((tn, getp (js ''argument'') node), tn, node) \<in> measure (\<lambda>(tn, node). size node)"
    using size_getp[of "js ''argument''" node] n
    by (cases "getp (js ''argument'') node = JUndef") auto
qed

text \<open>
  The key of a property, \<open>prop.key.name || prop.key.value\<close>, as the property name it
  becomes in \<open>obj[key] = ...\<close>. A spread element has no \<open>key\<close>: the read raises.
\<close>

definition property_key :: "jv \<Rightarrow> error + jsstring" where
  "property_key keynode =
     (if keynode = JUndef \<or> keynode = JNull then Inl TypeError
      else (case (if truthy (getp (js ''name'') keynode) then getp (js ''name'') keynode
                  else getp (js ''value'') keynode) of
              JStr s \<Rightarrow> if s = js ''__proto__'' then Inl OutsideModel else Inr s
            | JUndef \<Rightarrow> Inr (js ''undefined'')
            | _ \<Rightarrow> Inl OutsideModel))"

function parseObjectExpression :: "coercion \<Rightarrow> jv \<Rightarrow> error + (jsstring \<times> jv) list"
  and parseProps ::
    "coercion \<Rightarrow> jv list \<Rightarrow> (jsstring \<times> jv) list \<Rightarrow> error + (jsstring \<times> jv) list"
where
  "parseObjectExpression tn node =
     (if \<not> has_type ''ObjectExpression'' node then Inr []
      else parseProps tn (elems (getp (js ''properties'') node)) [])"
| "parseProps tn [] obj = Inr obj"
| "parseProps tn (prop # props) obj =
     (case property_key (getp (js ''key'') prop) of
        Inl e \<Rightarrow> Inl e
      | Inr key \<Rightarrow>
          if has_type ''ObjectExpression'' (getp (js ''value'') prop) then
            (case parseObjectExpression tn (getp (js ''value'') prop) of
               Inl e \<Rightarrow> Inl e
             | Inr sub \<Rightarrow> parseProps tn props (AList.update key (JObj sub) obj))
          else if has_type ''ArrayExpression'' (getp (js ''value'') prop) then
            parseProps tn props
              (AList.update key
                 (JArr (map (evaluateLiteral tn)
                            (elems (getp (js ''elements'') (getp (js ''value'') prop)))))
                 obj)
          else parseProps tn props
                 (AList.update key (evaluateLiteral tn (getp (js ''value'') prop)) obj))"
  by pat_completeness auto
termination
proof (relation "measure (\<lambda>x. case x of Inl (tn, node) \<Rightarrow> 2 * size node + 2
                                       | Inr (tn, props, obj) \<Rightarrow> 2 * size_list size props + 1)")
  show "wf (measure (\<lambda>x. case x of Inl (tn, node) \<Rightarrow> 2 * size node + 2
                                       | Inr (tn, props, obj) \<Rightarrow> 2 * size_list size props + 1))"
    by simp
next
  fix tn :: coercion and node :: jv
  assume "\<not> \<not> has_type ''ObjectExpression'' node"
  then obtain ps where n: "node = JObj ps"
    by (cases node) (auto simp: has_type_def node_type_def)
  have "size_list size (elems (getp (js ''properties'') node))
          \<le> size (getp (js ''properties'') node)"
    by (cases "getp (js ''properties'') node") auto
  moreover have "getp (js ''properties'') node \<noteq> JUndef
      \<Longrightarrow> size (getp (js ''properties'') node) < size node"
    by (rule size_getp)
  ultimately show "(Inr (tn, elems (getp (js ''properties'') node), []), Inl (tn, node))
       \<in> measure (\<lambda>x. case x of Inl (tn, node) \<Rightarrow> 2 * size node + 2
                                       | Inr (tn, props, obj) \<Rightarrow> 2 * size_list size props + 1)"
    using n by (cases "getp (js ''properties'') node = JUndef") auto
next
  fix tn :: coercion and p :: jv and props :: "jv list" and obj :: "(jsstring \<times> jv) list"
  assume "has_type ''ObjectExpression'' (getp (js ''value'') p)"
  then have "getp (js ''value'') p \<noteq> JUndef" by (auto simp: has_type_def node_type_def)
  then have "size (getp (js ''value'') p) < size p" by (rule size_getp)
  then show "(Inl (tn, getp (js ''value'') p), Inr (tn, p # props, obj))
       \<in> measure (\<lambda>x. case x of Inl (tn, node) \<Rightarrow> 2 * size node + 2
                                       | Inr (tn, props, obj) \<Rightarrow> 2 * size_list size props + 1)"
    by simp
qed auto

subsection \<open>The four extractions\<close>

text \<open>
  \<open>node.type === 'CallExpression' && node.callee.type === 'MemberExpression' &&
  node.callee.object.name === 'AKM'\<close>, and the method name \<open>node.callee.property.name\<close>.
\<close>

definition akm_call :: "jv \<Rightarrow> bool" where
  "akm_call node =
     (has_type ''CallExpression'' node
      \<and> has_type ''MemberExpression'' (getp (js ''callee'') node)
      \<and> getp (js ''name'') (getp (js ''object'') (getp (js ''callee'') node)) = JStr (js ''AKM''))"

definition callee_method :: "jv \<Rightarrow> jv" where
  "callee_method node = getp (js ''name'') (getp (js ''property'') (getp (js ''callee'') node))"

definition call_args :: "jv \<Rightarrow> jv list" where
  "call_args node = elems (getp (js ''arguments'') node)"

definition extractModuleConfig :: "coercion \<Rightarrow> jv \<Rightarrow> error + (jsstring \<times> jv) list" where
  "extractModuleConfig tn ast =
     foldM (\<lambda>node config.
              if akm_call node \<and> callee_method node = JStr (js ''module'') then
                (if length (call_args node) > 0
                    \<and> has_type ''ObjectExpression'' (hd (call_args node))
                 then parseObjectExpression tn (hd (call_args node))
                 else Inr config)
              else Inr config)
           (walkAST ast) []"

text \<open>
  \<open>functions[name] = {...}\<close> on the plain object \<open>functions\<close>: a new name is appended,
  an old one keeps its place (\<open>Object.entries\<close> later lists the names in that order).
  The name of a pattern binding is \<open>undefined\<close> and becomes the key \<open>"undefined"\<close>.
\<close>

definition set_function ::
    "jv \<Rightarrow> funcInfo \<Rightarrow> (jsstring \<times> funcInfo) list \<Rightarrow> error + (jsstring \<times> funcInfo) list" where
  "set_function key info functions =
     (case key of
        JStr s \<Rightarrow> if s = js ''__proto__'' then Inl OutsideModel
                  else Inr (AList.update s info functions)
      | JUndef \<Rightarrow> Inr (AList.update (js ''undefined'') info functions)
      | _ \<Rightarrow> Inl OutsideModel)"

definition id_name :: "jv \<Rightarrow> jv" where
  "id_name node = getp (js ''name'') (getp (js ''id'') node)"

definition extractFunctions :: "jv \<Rightarrow> error + (jsstring \<times> funcInfo) list" where
  "extractFunctions ast =
     foldM (\<lambda>node functions.
        bind (if has_type ''FunctionDeclaration'' node \<and> truthy (getp (js ''id'') node)
              then set_function (id_name node)
                     \<lparr>fi_name = id_name node, fi_node = node,
                      fi_params = map (getp (js ''name'')) (elems (getp (js ''params'') node)),
                      fi_isExport = False\<rparr> functions
              else Inr functions) (\<lambda>functions.
        bind (if has_type ''ExportNamedDeclaration'' node
                 \<and> truthy (getp (js ''declaration'') node)
                 \<and> has_type ''FunctionDeclaration'' (getp (js ''declaration'') node)
              then set_function (id_name (getp (js ''declaration'') node))
                     \<lparr>fi_name = id_name (getp (js ''declaration'') node),
                      fi_node = getp (js ''declaration'') node,
                      fi_params = map (getp (js ''name''))
                                      (elems (getp (js ''params'') (getp (js ''declaration'') node))),
                      fi_isExport = True\<rparr> functions
              else Inr functions) (\<lambda>functions.
        if has_type ''VariableDeclaration'' node then
          foldM (\<lambda>decl functions.
                   if truthy (getp (js ''init'') decl)
                      \<and> (has_type ''ArrowFunctionExpression'' (getp (js ''init'') decl)
                         \<or> has_type ''FunctionExpression'' (getp (js ''init'') decl))
                   then set_function (id_name decl)
                          \<lparr>fi_name = id_name decl, fi_node = getp (js ''init'') decl,
                           fi_params = map (\<lambda>p. if truthy (getp (js ''name'') p)
                                                 then getp (js ''name'') p
                                                 else getp (js ''name'') (getp (js ''left'') p))
                                           (elems (getp (js ''params'') (getp (js ''init'') decl))),
                           fi_isExport = False\<rparr> functions
                   else Inr functions)
                (elems (getp (js ''declarations'') node)) functions
        else Inr functions)))
      (walkAST ast) []"

text \<open>\<open>a || b\<close>, and a value that has to be a string to stay inside the model.\<close>

definition or_else :: "jv \<Rightarrow> jv \<Rightarrow> jv" where
  "or_else a b = (if truthy a then a else b)"

definition as_string :: "jv \<Rightarrow> error + jsstring" where
  "as_string v = (case v of JStr s \<Rightarrow> Inr s | _ \<Rightarrow> Inl OutsideModel)"

definition extractCommands :: "coercion \<Rightarrow> jv \<Rightarrow> error + command list" where
  "extractCommands tn ast =
     foldM (\<lambda>node commands.
        if akm_call node \<and> callee_method node = JStr (js ''command'')
           \<and> length (call_args node) \<ge> 2 then
          bind (parseObjectExpression tn (call_args node ! 0)) (\<lambda>cmdConfig.
          bind (as_string (or_else (getp (js ''name'') (JObj cmdConfig)) (JStr (js ''unknown'')))) (\<lambda>name.
          bind (as_string (or_else (getp (js ''syntax'') (JObj cmdConfig))
                                   (getp (js ''name'') (JObj cmdConfig)))) (\<lambda>syntax.
          bind (as_string (or_else (getp (js ''description'') (JObj cmdConfig)) (JStr []))) (\<lambda>description.
          bind (as_string (or_else (getp (js ''category'') (JObj cmdConfig)) (JStr (js ''Module'')))) (\<lambda>category.
            Inr (commands @
              [\<lparr>cmd_name = name, cmd_syntax = syntax, cmd_description = description,
                cmd_category = category,
                cmd_handler = or_else (getp (js ''name'') (call_args node ! 1))
                                (or_else (id_name (call_args node ! 1)) JNull)\<rparr>]))))))
        else Inr commands)
      (walkAST ast) []"

definition extractAPICalls :: "jv \<Rightarrow> apiCall list" where
  "extractAPICalls ast =
     map (\<lambda>node. \<lparr>ac_method = callee_method node, ac_args = call_args node\<rparr>)
         (filter (\<lambda>node. akm_call node
                        \<and> callee_method node \<noteq> JStr (js ''module'')
                        \<and> callee_method node \<noteq> JStr (js ''command''))
                 (walkAST ast))"

subsection \<open>\<open>computeRequiredCapabilities\<close>\<close>

definition computeRequiredCapabilities :: "apiCall list \<Rightarrow> command list \<Rightarrow> int" where
  "computeRequiredCapabilities apiCalls commands =
     (let caps = (if length commands > 0 then js_or (Some 0) (Some CAP_COMMAND) else 0);
          caps = foldl (\<lambda>caps call.
                    case api_capability (ac_method call) of
                      Some capability \<Rightarrow> js_or (Some caps) (Some capability)
                    | None \<Rightarrow> caps) caps apiCalls
      in js_or (Some caps) (Some CAP_LOG))"

subsection \<open>\<open>generateIR\<close>\<close>

text \<open>
  \<open>addString\<close>: the closure over the \<open>Map\<close> \<open>stringTable\<close> and the list
  \<open>ir.strings\<close>, which hold the same strings; a new string is appended.
\<close>

definition addString :: "jsstring \<Rightarrow> jsstring list \<Rightarrow> jsstring list" where
  "addString s strings = (if s \<in> set strings then strings else strings @ [s])"

text \<open>One argument of an API call: the four cases of the loop over \<open>n.arguments\<close>.\<close>

definition lower_arg ::
    "coercion \<Rightarrow> jv \<Rightarrow> instr list \<times> jsstring list \<Rightarrow> instr list \<times> jsstring list" where
  "lower_arg tn arg st =
     (case st of (instructions, strings) \<Rightarrow>
        (case evaluateLiteral tn arg of
           JStr s \<Rightarrow> (instructions @ [PushStr s], addString s strings)
         | v \<Rightarrow> if is_number v then (instructions @ [Push v], strings)
                else if has_type ''Identifier'' arg
                  then (instructions @ [LoadLocal (getp (js ''name'') arg)], strings)
                else (instructions @ [Push (JNum 0)], strings)))"

text \<open>
  The visitor of \<open>generateFunctionIR\<close>, on the state (instructions, locals, strings):
  the cases \<open>CallExpression\<close>, \<open>ReturnStatement\<close> and \<open>VariableDeclaration\<close> of its
  \<open>switch\<close>; every other node leaves the state as it is.
\<close>

definition visit_node ::
    "coercion \<Rightarrow> jv \<Rightarrow> instr list \<times> jv list \<times> jsstring list
       \<Rightarrow> instr list \<times> jv list \<times> jsstring list" where
  "visit_node tn n st =
     (case st of (instructions, locals, strings) \<Rightarrow>
        if has_type ''CallExpression'' n then
          (if has_type ''MemberExpression'' (getp (js ''callee'') n)
              \<and> getp (js ''name'') (getp (js ''object'') (getp (js ''callee'') n)) = JStr (js ''AKM'')
           then
             (case foldl (\<lambda>s arg. lower_arg tn arg s) (instructions, strings) (call_args n) of
                (instructions', strings') \<Rightarrow>
                  (instructions' @ [CallApi (callee_method n) (length (call_args n))],
                   locals, strings'))
           else if has_type ''Identifier'' (getp (js ''callee'') n) then
             (instructions @ [Call (getp (js ''name'') (getp (js ''callee'') n))
                                   (length (call_args n))],
              locals, strings)
           else st)
        else if has_type ''ReturnStatement'' n then
          ((if truthy (getp (js ''argument'') n)
            then instructions @ [Push (evaluateLiteral tn (getp (js ''argument'') n))]
            else instructions) @ [Ret],
           locals, strings)
        else if has_type ''VariableDeclaration'' n then
          foldl (\<lambda>s decl.
                   case s of (instructions, locals, strings) \<Rightarrow>
                     ((if truthy (getp (js ''init'') decl)
                       then instructions @
                              [StoreLocal (id_name decl) (evaluateLiteral tn (getp (js ''init'') decl))]
                       else instructions),
                      locals @ [id_name decl], strings))
                st (elems (getp (js ''declarations'') n))
        else st)"

text \<open>
  \<open>generateFunctionIR(node, irFunc, addString)\<close> on a fresh \<open>irFunc\<close>: the walk over
  the body, then the final \<open>RET\<close> if the last instruction is none.
\<close>

definition generateFunctionIR ::
    "coercion \<Rightarrow> jv \<Rightarrow> jsstring list \<Rightarrow> instr list \<times> jv list \<times> jsstring list" where
  "generateFunctionIR tn node strings =
     (case foldl (\<lambda>s n. visit_node tn n s) ([], [], strings) (walkAST (getp (js ''body'') node)) of
        (instructions, locals, strings') \<Rightarrow>
          ((if length instructions = 0 \<or> instr_op (last instructions) \<noteq> OP_RET
            then instructions @ [Ret] else instructions),
           locals, strings'))"

text \<open>The registration block of one command.\<close>

definition regCalls :: "command \<Rightarrow> instr list" where
  "regCalls cmd =
     [PushStr (cmd_name cmd), PushStr (cmd_syntax cmd), PushStr (cmd_description cmd),
      PushStr (cmd_category cmd), Push (JNum 0),
      CallApi (JStr (js ''registerCommand'')) 5, Op OP_POP]"

text \<open>
  The injection into \<open>init\<close>: \<open>insertIdx\<close> is the index of the first \<open>RET\<close> (the
  length if there is none), computed once; then, for each command in order,
  \<open>instructions.splice(insertIdx, 0, ...regCalls)\<close>.
\<close>

definition insertIdx :: "instr list \<Rightarrow> nat" where
  "insertIdx instructions = length (takeWhile (\<lambda>i. instr_op i \<noteq> OP_RET) instructions)"

definition splice :: "nat \<Rightarrow> 'a list \<Rightarrow> 'a list \<Rightarrow> 'a list" where
  "splice idx new xs = take idx xs @ new @ drop idx xs"

definition injectCommands :: "command list \<Rightarrow> instr list \<Rightarrow> instr list" where
  "injectCommands commands instructions =
     foldl (\<lambda>ins cmd. splice (insertIdx instructions) (regCalls cmd) ins) instructions commands"

text \<open>The body of the loop over \<open>Object.entries(functions)\<close>.\<close>

definition lowerFunction ::
    "coercion \<Rightarrow> command list \<Rightarrow> jsstring \<times> funcInfo \<Rightarrow> irFunc list \<times> jsstring list
       \<Rightarrow> irFunc list \<times> jsstring list" where
  "lowerFunction tn commands entry st =
     (case entry of (name, func) \<Rightarrow> case st of (irFuncs, strings) \<Rightarrow>
        (case generateFunctionIR tn (fi_node func) (addString name strings) of
           (instructions, locals, strings') \<Rightarrow>
             (irFuncs @
                [\<lparr>fn_name = name, fn_params = fi_params func,
                  fn_instructions =
                    (if name = js ''init'' \<and> length commands > 0
                     then injectCommands commands instructions else instructions),
                  fn_locals = locals,
                  fn_isInit = (name = js ''init''), fn_isExit = (name = js ''exit'')\<rparr>],
              strings')))"

definition generateIR ::
    "coercion \<Rightarrow> (jsstring \<times> funcInfo) list \<Rightarrow> command list \<Rightarrow> apiCall list \<Rightarrow> error + ir" where
  "generateIR tn functions commands apiCalls =
     (let strings = foldl (\<lambda>strings cmd.
                       addString (cmd_category cmd) (addString (cmd_description cmd)
                         (addString (cmd_syntax cmd) (addString (cmd_name cmd) strings))))
                     [] commands
      in case foldl (\<lambda>st entry. lowerFunction tn commands entry st) ([], strings) functions of
           (irFuncs, strings) \<Rightarrow>
             bind (foldM (\<lambda>call strings.
                            bind (as_string (ac_method call)) (\<lambda>m. Inr (addString m strings)))
                         apiCalls strings)
                  (\<lambda>strings. Inr \<lparr>ir_strings = strings, ir_functions = irFuncs\<rparr>))"

subsection \<open>\<open>parse\<close>\<close>

text \<open>
  The argument is acorn's result: \<open>None\<close> when it rejected the source, the AST
  otherwise. The declared capabilities, when truthy, are merged with the inferred ones
  by \<open>|=\<close>; otherwise the inferred ones are stored.
\<close>

definition parse :: "coercion \<Rightarrow> jv option \<Rightarrow> error + parseResult" where
  "parse tn source =
     (case source of
        None \<Rightarrow> Inr ParseErrors
      | Some ast \<Rightarrow>
          bind (extractModuleConfig tn ast) (\<lambda>moduleConfig.
          bind (extractFunctions ast) (\<lambda>functions.
          bind (extractCommands tn ast) (\<lambda>commands.
            let apiCalls = extractAPICalls ast;
                requiredCaps = computeRequiredCapabilities apiCalls commands;
                declared = getp (js ''capabilities'') (JObj moduleConfig);
                moduleConfig' =
                  (if truthy declared
                   then AList.update (js ''capabilities'')
                          (JNum (js_or (to_number tn declared) (Some requiredCaps))) moduleConfig
                   else AList.update (js ''capabilities'') (JNum requiredCaps) moduleConfig)
            in bind (generateIR tn functions commands apiCalls) (\<lambda>ir.
                 Inr (Parsed \<lparr>pr_moduleConfig = moduleConfig', pr_functions = functions,
                               pr_commands = commands, pr_apiCalls = apiCalls,
                               pr_ir = ir\<rparr>))))))"

section \<open>Code generator: \<open>AKMCodeGen\<close>\<close>

text \<open>
  The generator's fields \<open>code\<close>, \<open>labels\<close>, \<open>fixups\<close> and \<open>currentOffset\<close>.
  Offsets count from the start of the code section.
\<close>

record codegen =
  cs_code :: "byte list"
  cs_labels :: "(jsstring \<times> nat) list"
  cs_fixups :: "(nat \<times> jv) list"
  cs_currentOffset :: nat

text \<open>
  The string table: its entries (string, offset, encoded length), the offset of each
  string, the total size. (The table is also indexed by position; those numeric keys are
  never looked up, every lookup is by a string.)
\<close>

record stringTable =
  st_entries :: "(jsstring \<times> nat \<times> nat) list"
  st_offsets :: "(jsstring \<times> nat) list"
  st_totalSize :: nat

definition buildStringTable :: "jsstring list \<Rightarrow> stringTable" where
  "buildStringTable strings =
     foldl (\<lambda>table str.
              \<lparr>st_entries = st_entries table @
                              [(str, st_totalSize table, length (cstring str))],
               st_offsets = AList.update str (st_totalSize table) (st_offsets table),
               st_totalSize = st_totalSize table + length (cstring str)\<rparr>)
           \<lparr>st_entries = [], st_offsets = [], st_totalSize = 0\<rparr> strings"

text \<open>\<open>stringTable.offsets.get(v) || 0\<close>.\<close>

definition string_offset :: "stringTable \<Rightarrow> jv \<Rightarrow> nat" where
  "string_offset table v =
     (case v of
        JStr s \<Rightarrow> (case map_of (st_offsets table) s of Some off \<Rightarrow> off | None \<Rightarrow> 0)
      | _ \<Rightarrow> 0)"

definition emit :: "int \<Rightarrow> codegen \<Rightarrow> codegen" where
  "emit b cs = cs\<lparr>cs_code := cs_code cs @ [word_of_int b],
                  cs_currentOffset := cs_currentOffset cs + 1\<rparr>"

text \<open>
  \<open>emitInt32(value)\<close>: the bytes \<open>value & 0xFF\<close>, \<open>(value >> 8) & 0xFF\<close>,
  \<open>(value >> 16) & 0xFF\<close>, \<open>(value >> 24) & 0xFF\<close> of the 32-bit value.
\<close>

definition int32_bytes :: "int option \<Rightarrow> byte list" where
  "int32_bytes value =
     (let w = to_int32 value
      in [ucast w, ucast (signed_drop_bit 8 w), ucast (signed_drop_bit 16 w),
          ucast (signed_drop_bit 24 w)])"

definition emitInt32 :: "int option \<Rightarrow> codegen \<Rightarrow> codegen" where
  "emitInt32 value cs = cs\<lparr>cs_code := cs_code cs @ int32_bytes value,
                           cs_currentOffset := cs_currentOffset cs + 4\<rparr>"

definition emitValue :: "jv \<Rightarrow> stringTable \<Rightarrow> codegen \<Rightarrow> codegen" where
  "emitValue value table cs =
     (case value of
        JNum n \<Rightarrow> emitInt32 (Some n) cs
      | JNaN \<Rightarrow> emitInt32 None cs
      | JStr s \<Rightarrow> emitInt32 (Some (int (string_offset table value))) cs
      | _ \<Rightarrow> emitInt32 (Some 0) cs)"

definition addFixup :: "jv \<Rightarrow> codegen \<Rightarrow> codegen" where
  "addFixup label cs = cs\<lparr>cs_fixups := cs_fixups cs @ [(cs_currentOffset cs, label)]\<rparr>"

text \<open>\<open>xs.indexOf(x)\<close>: the first index, or \<open>-1\<close>.\<close>

definition indexOf :: "'a list \<Rightarrow> 'a \<Rightarrow> int" where
  "indexOf xs x = (if x \<in> set xs then int (length (takeWhile (\<lambda>y. y \<noteq> x) xs)) else - 1)"

definition getAPIIndex :: "jv \<Rightarrow> int" where
  "getAPIIndex m =
     (case m of
        JStr s \<Rightarrow> (if indexOf (map fst API_FUNCTIONS) s \<ge> 0
                   then indexOf (map fst API_FUNCTIONS) s else 0xFF)
      | _ \<Rightarrow> 0xFF)"

fun generateInstruction :: "instr \<Rightarrow> stringTable \<Rightarrow> irFunc \<Rightarrow> codegen \<Rightarrow> codegen" where
  "generateInstruction (Push value) table func cs =
     emitValue value table (emit OP_PUSH cs)"
| "generateInstruction (PushArg arg) table func cs =
     emit arg (emit OP_PUSH_ARG cs)"
| "generateInstruction (PushStr value) table func cs =
     emitInt32 (Some (int (string_offset table (JStr value)))) (emit OP_PUSH_STR cs)"
| "generateInstruction (StoreLocal name value) table func cs =
     emit (indexOf (fn_locals func) name)
       (emit OP_STORE_LOCAL (emitValue value table (emit OP_PUSH cs)))"
| "generateInstruction (LoadLocal name) table func cs =
     emit (indexOf (fn_locals func) name) (emit OP_LOAD_LOCAL cs)"
| "generateInstruction (Call f argc) table func cs =
     emit (int argc) (emitInt32 (Some 0) (addFixup f (emit OP_CALL cs)))"
| "generateInstruction (CallApi method argc) table func cs =
     emit (int argc) (emit (getAPIIndex method) (emit OP_CALL_API cs))"
| "generateInstruction Ret table func cs = emit OP_RET cs"
| "generateInstruction (Jump c label target) table func cs =
     (if c = OP_JMP \<or> c = OP_JZ \<or> c = OP_JNZ then
        emitInt32 (Some target)
          (case label of
             Some l \<Rightarrow> if l \<noteq> [] then addFixup (JStr l) (emit c cs) else emit c cs
           | None \<Rightarrow> emit c cs)
      else emit OP_NOP cs)"
| "generateInstruction (Op c) table func cs =
     (if c \<in> set plain_opcodes then emit c cs else emit OP_NOP cs)"

text \<open>
  \<open>generateFunction\<close>: the label of the function, the \<open>NOP\<close> of the prologue, one
  \<open>PUSH 0\<close> per local, the body.
\<close>

definition generateFunction :: "irFunc \<Rightarrow> stringTable \<Rightarrow> codegen \<Rightarrow> codegen" where
  "generateFunction func table cs =
     foldl (\<lambda>cs instr. generateInstruction instr table func cs)
       (foldl (\<lambda>cs local. emitInt32 (Some 0) (emit OP_PUSH cs))
          (emit OP_NOP (cs\<lparr>cs_labels := AList.update (fn_name func) (cs_currentOffset cs)
                                             (cs_labels cs)\<rparr>))
          (fn_locals func))
       (fn_instructions func)"

text \<open>
  \<open>resolveFixups\<close>: the address of a known label is written, little-endian, over the
  four placeholder bytes at the recorded offset.
\<close>

definition label_target :: "(jsstring \<times> nat) list \<Rightarrow> jv \<Rightarrow> nat option" where
  "label_target labels label = (case label of JStr s \<Rightarrow> map_of labels s | _ \<Rightarrow> None)"

definition resolveFixups :: "codegen \<Rightarrow> codegen" where
  "resolveFixups cs =
     foldl (\<lambda>cs fixup.
              case label_target (cs_labels cs) (snd fixup) of
                Some target \<Rightarrow>
                  cs\<lparr>cs_code := (cs_code cs)
                        [fst fixup := int32_bytes (Some (int target)) ! 0,
                         fst fixup + 1 := int32_bytes (Some (int target)) ! 1,
                         fst fixup + 2 := int32_bytes (Some (int target)) ! 2,
                         fst fixup + 3 := int32_bytes (Some (int target)) ! 3]\<rparr>
              | None \<Rightarrow> cs)
           cs (cs_fixups cs)"

record stub =
  nameOffset :: nat
  syntaxOffset :: nat
  descOffset :: nat
  categoryOffset :: nat
  handlerOffset :: nat

text \<open>\<open>functionOffsets.get(name) || 0\<close>.\<close>

definition function_offset :: "(jsstring \<times> nat) list \<Rightarrow> jv \<Rightarrow> nat" where
  "function_offset functionOffsets name =
     (case name of
        JStr s \<Rightarrow> (case map_of functionOffsets s of Some off \<Rightarrow> off | None \<Rightarrow> 0)
      | _ \<Rightarrow> 0)"

definition generateCommandStubs ::
    "command list \<Rightarrow> stringTable \<Rightarrow> (jsstring \<times> nat) list \<Rightarrow> stub list" where
  "generateCommandStubs commands table functionOffsets =
     map (\<lambda>cmd. \<lparr>nameOffset = string_offset table (JStr (cmd_name cmd)),
                 syntaxOffset = string_offset table (JStr (cmd_syntax cmd)),
                 descOffset = string_offset table (JStr (cmd_description cmd)),
                 categoryOffset = string_offset table (JStr (cmd_category cmd)),
                 handlerOffset = function_offset functionOffsets (cmd_handler cmd)\<rparr>)
         commands"

text \<open>
  \<open>buildDataSection\<close>: the NUL-terminated strings of the table, then one 20-byte
  record per command stub.
\<close>

definition stub_bytes :: "stub \<Rightarrow> error + byte list" where
  "stub_bytes s =
     bind (writeUInt32LE (Some (int (nameOffset s))) 0 (replicate 20 0)) (\<lambda>buf.
     bind (writeUInt32LE (Some (int (syntaxOffset s))) 4 buf) (\<lambda>buf.
     bind (writeUInt32LE (Some (int (descOffset s))) 8 buf) (\<lambda>buf.
     bind (writeUInt32LE (Some (int (categoryOffset s))) 12 buf) (\<lambda>buf.
     writeUInt32LE (Some (int (handlerOffset s))) 16 buf))))"

definition buildDataSection :: "stringTable \<Rightarrow> stub list \<Rightarrow> error + byte list" where
  "buildDataSection table commandStubs =
     foldM (\<lambda>s parts. bind (stub_bytes s) (\<lambda>buf. Inr (parts @ buf)))
       commandStubs
       (concat (map (\<lambda>entry. cstring (fst entry)) (st_entries table)))"

text \<open>What \<open>generate\<close> returns (without the copy of \<open>ir.commands\<close>).\<close>

record codegenResult =
  cg_code :: "byte list"
  cg_data :: "byte list"
  cg_strings :: "jsstring list"
  cg_functions :: "(jsstring \<times> nat) list"
  cg_initOffset :: nat
  cg_exitOffset :: nat
  cg_codeSize :: nat
  cg_dataSize :: nat

text \<open>
  The loop over \<open>ir.functions\<close>: \<open>functionOffsets.set(func.name, this.currentOffset)\<close>,
  then \<open>generateFunction\<close>.
\<close>

definition generateFunctions ::
    "irFunc list \<Rightarrow> stringTable \<Rightarrow> (jsstring \<times> nat) list \<times> codegen" where
  "generateFunctions funcs table =
     foldl (\<lambda>st func.
              (AList.update (fn_name func) (cs_currentOffset (snd st)) (fst st),
               generateFunction func table (snd st)))
       ([], \<lparr>cs_code = [], cs_labels = [], cs_fixups = [], cs_currentOffset = 0\<rparr>) funcs"

definition generate :: "parsed \<Rightarrow> error + codegenResult" where
  "generate parseResult =
     (let stringTable = buildStringTable (ir_strings (pr_ir parseResult));
          st = generateFunctions (ir_functions (pr_ir parseResult)) stringTable;
          functionOffsets = fst st;
          commandStubs = generateCommandStubs (pr_commands parseResult) stringTable
                           functionOffsets;
          cs = resolveFixups (snd st)
      in bind (buildDataSection stringTable commandStubs) (\<lambda>dataSection.
           Inr \<lparr>cg_code = cs_code cs, cg_data = dataSection,
                cg_strings = ir_strings (pr_ir parseResult),
                cg_functions = functionOffsets,
                cg_initOffset = function_offset functionOffsets (JStr (js ''init'')),
                cg_exitOffset = function_offset functionOffsets (JStr (js ''exit'')),
                cg_codeSize = length (cs_code cs),
                cg_dataSize = length dataSection\<rparr>))"

section \<open>Optimizer: \<open>AKMOptimizer\<close>, as the compiler calls it\<close>

text \<open>
  \<open>compile\<close> hands the optimizer the result of the code generator, whose \<open>functions\<close>
  is the \<open>Map\<close> from function names to offsets. The first pass,
  \<open>deadCodeElimination\<close>, iterates over it and reads \<open>func.instructions\<close> of the first
  entry, a pair \<open>[name, offset]\<close>: the loop \<open>for (const instr of undefined)\<close> raises
  \<open>TypeError\<close>. With no entry the three passes over functions do nothing and
  \<open>stringDeduplication\<close> keeps the first occurrence of each string.
\<close>

definition stringDeduplication :: "jsstring list \<Rightarrow> jsstring list" where
  "stringDeduplication strings =
     foldl (\<lambda>uniqueStrings str.
              if str \<in> set uniqueStrings then uniqueStrings else uniqueStrings @ [str])
           [] strings"

definition optimize :: "codegenResult \<Rightarrow> error + codegenResult" where
  "optimize ir =
     (if cg_functions ir \<noteq> [] then Inl TypeError
      else Inr (ir\<lparr>cg_strings := stringDeduplication (cg_strings ir)\<rparr>))"

section \<open>Binary writer: \<open>AKMBinaryWriter\<close>\<close>

text \<open>The compiler's options, and the module info \<open>extractModuleInfo\<close> builds.\<close>

record options =
  opt_debug :: bool
  opt_optimize :: bool
  opt_capabilities :: "int option"

record moduleInfo =
  mi_name :: jv
  mi_version :: jv
  mi_author :: jv
  mi_description :: jv
  mi_license :: jv
  mi_capabilities :: jv
  mi_apiVersion :: int
  mi_kernelMinVersion :: int
  mi_kernelMaxVersion :: int
  mi_dependencies :: jv
  mi_securityLevel :: jv

text \<open>
  \<open>calculateChecksum\<close>: \<open>checksum += data[i]\<close>, then
  \<open>checksum = ((checksum << 1) | (checksum >>> 31)) >>> 0\<close>, the shifts acting on the
  low 32 bits of the sum.
\<close>

definition calculateChecksum :: "byte list \<Rightarrow> nat" where
  "calculateChecksum data =
     foldl (\<lambda>checksum b.
              let w = (of_nat (checksum + unat b) :: 32 word)
              in unat (push_bit 1 w OR drop_bit 31 w))
           0 data"

text \<open>
  \<open>writeFixedString(buffer, offset, str, maxLen)\<close>: \<open>(str || '').slice(0, maxLen - 1)\<close>
  written as UTF-8. A truthy value that is no string has no \<open>slice\<close>, or is no string
  for \<open>buffer.write\<close>: \<open>TypeError\<close>.
\<close>

definition writeFixedString :: "byte list \<Rightarrow> nat \<Rightarrow> jv \<Rightarrow> nat \<Rightarrow> error + byte list" where
  "writeFixedString buffer off str maxLen =
     (case or_else str (JStr []) of
        JStr s \<Rightarrow> Inr (buf_write (take (maxLen - 1) s) off buffer)
      | _ \<Rightarrow> Inl TypeError)"

text \<open>
  \<open>buildSymbolTable\<close>: one 12-byte record per entry of the function map: name offset,
  value (the function's offset), size 0, type \<open>SYM_FUNC\<close> = 1, binding
  \<open>BIND_GLOBAL\<close> = 1.
\<close>

definition symbol_entry :: "nat \<Rightarrow> nat \<Rightarrow> error + byte list" where
  "symbol_entry nameOff off =
     bind (writeUInt32LE (Some (int nameOff)) 0 (replicate 12 0)) (\<lambda>entry.
     bind (writeUInt32LE (Some (int off)) 4 entry) (\<lambda>entry.
     bind (writeUInt16LE (Some 0) 8 entry) (\<lambda>entry.
     bind (writeUInt8 (Some 1) 10 entry) (\<lambda>entry.
     writeUInt8 (Some 1) 11 entry))))"

fun symbol_entries :: "nat \<Rightarrow> (jsstring \<times> nat) list \<Rightarrow> error + byte list" where
  "symbol_entries nameOff [] = Inr []"
| "symbol_entries nameOff ((name, off) # functions) =
     bind (symbol_entry nameOff off) (\<lambda>entry.
     bind (symbol_entries (nameOff + length name + 1) functions) (\<lambda>rest.
     Inr (entry @ rest)))"

definition buildSymbolTable :: "codegenResult \<Rightarrow> error + byte list" where
  "buildSymbolTable codegenResult = symbol_entries 0 (cg_functions codegenResult)"

text \<open>\<open>buildStringTable\<close> of the writer: the NUL-terminated strings, concatenated.\<close>

definition buildStrtab :: "jsstring list \<Rightarrow> byte list" where
  "buildStrtab strings = concat (map cstring strings)"

text \<open>
  \<open>moduleInfo.dependencies.length\<close> and \<open>moduleInfo.dependencies[i]\<close> on whatever
  value the configuration holds: an array, a string (its code units), an object (its
  properties \<open>length\<close> and \<open>"0"\<close>, \<open>"1"\<close>, ...); anything else has neither.
\<close>

definition js_length :: "coercion \<Rightarrow> jv \<Rightarrow> int option" where
  "js_length tn v =
     (case v of
        JArr xs \<Rightarrow> Some (int (length xs))
      | JStr s \<Rightarrow> Some (int (length s))
      | JObj ps \<Rightarrow> to_number tn (getp (js ''length'') v)
      | _ \<Rightarrow> None)"

definition js_index :: "jv \<Rightarrow> nat \<Rightarrow> jv" where
  "js_index v i =
     (case v of
        JArr xs \<Rightarrow> if i < length xs then xs ! i else JUndef
      | JStr s \<Rightarrow> if i < length s then JStr [s ! i] else JUndef
      | JObj ps \<Rightarrow> getp [of_nat (48 + i)] v
      | _ \<Rightarrow> JUndef)"

text \<open>The loop \<open>for (let i = 0; i < 4; i++)\<close> over the dependency slots.\<close>

definition write_dependency ::
    "int option \<Rightarrow> jv \<Rightarrow> nat \<Rightarrow> byte list \<Rightarrow> error + byte list" where
  "write_dependency depCount deps i headerBuf =
     (if (case depCount of None \<Rightarrow> False | Some d \<Rightarrow> int i < d) \<and> truthy (js_index deps i)
      then writeFixedString headerBuf (216 + 32 * i) (js_index deps i) 32
      else Inr headerBuf)"

text \<open>
  \<open>write(codegenResult, moduleInfo)\<close>: the section offsets, the 512-byte header field
  by field at the offsets the running \<open>offset\<close> variable takes, the content checksum,
  the header checksum over the header without its bytes 348..351, and the
  concatenation of header, code, data, symbol table and string table.
\<close>

definition write_header ::
    "coercion \<Rightarrow> options \<Rightarrow> codegenResult \<Rightarrow> moduleInfo \<Rightarrow> byte list \<Rightarrow> byte list
       \<Rightarrow> error + byte list" where
  "write_header tn opts codegenResult moduleInfo symtab strtab =
     (let code = cg_code codegenResult;
          data = cg_data codegenResult;
          headerSize = 512;
          codeOffset = headerSize;
          codeSize = length code;
          dataOffset = codeOffset + codeSize;
          dataSize = length data;
          symtabOffset = dataOffset + dataSize;
          symtabSize = length symtab;
          strtabOffset = symtabOffset + symtabSize;
          strtabSize = length strtab;
          totalSize = strtabOffset + strtabSize;
          flags = (if opt_debug opts then 1 else 0);
          depCount = map_option (\<lambda>n. min n 4) (js_length tn (mi_dependencies moduleInfo))
      in
      bind (writeUInt32LE (Some 0x324D4B41) 0 (replicate 512 0)) (\<lambda>headerBuf.
      bind (writeUInt16LE (Some 2) 4 headerBuf) (\<lambda>headerBuf.
      bind (writeUInt16LE (Some flags) 6 headerBuf) (\<lambda>headerBuf.
      bind (writeUInt32LE (Some 512) 8 headerBuf) (\<lambda>headerBuf.
      bind (writeUInt32LE (Some (int totalSize)) 12 headerBuf) (\<lambda>headerBuf.
      bind (writeFixedString headerBuf 16 (mi_name moduleInfo) 32) (\<lambda>headerBuf.
      bind (writeFixedString headerBuf 48 (mi_version moduleInfo) 16) (\<lambda>headerBuf.
      bind (writeFixedString headerBuf 64 (mi_author moduleInfo) 32) (\<lambda>headerBuf.
      bind (writeUInt16LE
              (Some (uint ((word_of_int (mi_apiVersion moduleInfo) :: 32 word) AND 0xFFFF)))
              96 headerBuf) (\<lambda>headerBuf.
      bind (writeUInt32LE (Some (mi_kernelMinVersion moduleInfo)) 100 headerBuf) (\<lambda>headerBuf.
      bind (writeUInt32LE (Some (mi_kernelMaxVersion moduleInfo)) 104 headerBuf) (\<lambda>headerBuf.
      bind (writeUInt32LE (to_number tn (mi_capabilities moduleInfo)) 108 headerBuf) (\<lambda>headerBuf.
      bind (writeUInt32LE (Some (int codeOffset)) 116 headerBuf) (\<lambda>headerBuf.
      bind (writeUInt32LE (Some (int codeSize)) 120 headerBuf) (\<lambda>headerBuf.
      bind (writeUInt32LE (Some (int dataOffset)) 124 headerBuf) (\<lambda>headerBuf.
      bind (writeUInt32LE (Some (int dataSize)) 128 headerBuf) (\<lambda>headerBuf.
      bind (writeUInt32LE (Some 0) 132 headerBuf) (\<lambda>headerBuf.
      bind (writeUInt32LE (Some 0) 136 headerBuf) (\<lambda>headerBuf.
      bind (writeUInt32LE (Some 0) 140 headerBuf) (\<lambda>headerBuf.
      bind (writeUInt32LE (Some (int (cg_initOffset codegenResult))) 164 headerBuf) (\<lambda>headerBuf.
      bind (writeUInt32LE (Some (int (cg_exitOffset codegenResult))) 168 headerBuf) (\<lambda>headerBuf.
      bind (writeUInt32LE (Some (int symtabOffset)) 180 headerBuf) (\<lambda>headerBuf.
      bind (writeUInt32LE (Some (int symtabSize)) 184 headerBuf) (\<lambda>headerBuf.
      bind (writeUInt32LE (Some (int strtabOffset)) 188 headerBuf) (\<lambda>headerBuf.
      bind (writeUInt32LE (Some (int strtabSize)) 192 headerBuf) (\<lambda>headerBuf.
      bind (writeUInt8 depCount 212 headerBuf) (\<lambda>headerBuf.
      bind (foldM (write_dependency depCount (mi_dependencies moduleInfo)) [0, 1, 2, 3]
              headerBuf) (\<lambda>headerBuf.
      bind (writeUInt8 (to_number tn (or_else (mi_securityLevel moduleInfo) (JNum 0))) 344
              headerBuf) (\<lambda>headerBuf.
      bind (writeUInt8 (Some 0) 345 headerBuf) (\<lambda>headerBuf.
      bind (writeUInt32LE
              (Some (int (calculateChecksum (code @ data @ symtab @ strtab)))) 352 headerBuf)
           (\<lambda>headerBuf.
      writeUInt32LE
        (Some (int (calculateChecksum (take 348 headerBuf @ drop (348 + 4) headerBuf))))
        348 headerBuf)))))))))))))))))))))))))))))))"

text \<open>(\<open>write\<close> is a keyword of Isabelle; the method is named \<open>write_akm\<close> here.)\<close>

definition write_akm :: "coercion \<Rightarrow> options \<Rightarrow> codegenResult \<Rightarrow> moduleInfo \<Rightarrow> error + byte list" where
  "write_akm tn opts codegenResult moduleInfo =
     bind (buildSymbolTable codegenResult) (\<lambda>symtab.
       let strtab = buildStrtab (cg_strings codegenResult)
       in bind (write_header tn opts codegenResult moduleInfo symtab strtab) (\<lambda>headerBuf.
            Inr (headerBuf @ cg_code codegenResult @ cg_data codegenResult @ symtab @ strtab)))"

section \<open>Compiler: \<open>AKMCompiler\<close>\<close>

text \<open>\<open>validateModule\<close>: the four checks, each of which throws.\<close>

definition validateModule :: "parseResult \<Rightarrow> error + parsed" where
  "validateModule parseResult =
     (case parseResult of
        ParseErrors \<Rightarrow> Inl (Error ''Module must declare configuration using AKM.module()'')
      | Parsed p \<Rightarrow>
          if \<not> truthy (getp (js ''name'') (JObj (pr_moduleConfig p)))
            then Inl (Error ''Module must have a name'')
          else if map_of (pr_functions p) (js ''init'') = None
            then Inl (Error ''Module must have an init() function'')
          else if map_of (pr_functions p) (js ''exit'') = None
            then Inl (Error ''Module must have an exit() function'')
          else Inr p)"

text \<open>
  \<open>extractModuleInfo\<close>. The fixed options of the constructor are API version
  \<open>0x0200\<close> and target kernel \<open>0x00080000\<close> up to \<open>0\<close> (any). An override of the
  capabilities that is \<open>null\<close>, \<open>NaN\<close> or \<open>0\<close> is falsy and gives way to the
  configuration.
\<close>

definition extractModuleInfo :: "options \<Rightarrow> parsed \<Rightarrow> moduleInfo" where
  "extractModuleInfo opts parseResult =
     (let config = JObj (pr_moduleConfig parseResult)
      in \<lparr>mi_name = or_else (getp (js ''name'') config) (JStr (js ''unnamed'')),
          mi_version = or_else (getp (js ''version'') config) (JStr (js ''1.0.0'')),
          mi_author = or_else (getp (js ''author'') config) (JStr []),
          mi_description = or_else (getp (js ''description'') config) (JStr []),
          mi_license = or_else (getp (js ''license'') config) (JStr (js ''MIT'')),
          mi_capabilities =
            (case opt_capabilities opts of
               Some c \<Rightarrow> if c \<noteq> 0 then JNum c
                         else or_else (getp (js ''capabilities'') config) (JNum 0)
             | None \<Rightarrow> or_else (getp (js ''capabilities'') config) (JNum 0)),
          mi_apiVersion = 0x0200,
          mi_kernelMinVersion = 0x00080000,
          mi_kernelMaxVersion = 0,
          mi_dependencies = or_else (getp (js ''dependencies'') config) (JArr []),
          mi_securityLevel = or_else (getp (js ''securityLevel'') config) (JNum 0)\<rparr>)"

text \<open>What \<open>compile\<close> returns (without the copies of the commands and of the IR).\<close>

record compiled =
  binary :: "byte list"
  info :: moduleInfo
  codeSize :: nat
  dataSize :: nat

definition compile :: "coercion \<Rightarrow> options \<Rightarrow> parseResult \<Rightarrow> error + compiled" where
  "compile tn opts parseResult =
     bind (validateModule parseResult) (\<lambda>p.
       let moduleInfo = extractModuleInfo opts p
       in bind (generate p) (\<lambda>ir.
          bind (if opt_optimize opts then optimize ir else Inr ir) (\<lambda>ir.
          bind (write_akm tn opts ir moduleInfo) (\<lambda>bin.
            Inr \<lparr>binary = bin, info = moduleInfo,
                 codeSize = cg_codeSize ir, dataSize = cg_dataSize ir\<rparr>))))"

text \<open>Parsing and compiling a source, as the command line does.\<close>

definition compile_source :: "coercion \<Rightarrow> options \<Rightarrow> jv option \<Rightarrow> error + compiled" where
  "compile_source tn opts source = bind (parse tn source) (compile tn opts)"

section \<open>Inspector: \<open>showModuleInfo\<close>\<close>






section \<open>Sources used as concrete inputs\<close>

text \<open>
  The trees acorn builds for a few small sources. Every node starts with \<open>type\<close>,
  \<open>start\<close> and \<open>end\<close> (the positions, which the compiler never reads, are written
  as 0), followed by its own properties in the order acorn assigns them.
\<close>

definition mk :: "string \<Rightarrow> (string \<times> jv) list \<Rightarrow> jv" where
  "mk t props =
     JObj ((js ''type'', JStr (js t)) # (js ''start'', JNum 0) # (js ''end'', JNum 0)
           # map (\<lambda>(k, v). (js k, v)) props)"

definition Identifier :: "string \<Rightarrow> jv" where
  "Identifier name = mk ''Identifier'' [(''name'', JStr (js name))]"

definition StringLiteral :: "string \<Rightarrow> jv" where
  "StringLiteral s = mk ''Literal'' [(''value'', JStr (js s)), (''raw'', JStr (js (''\"'' @ s @ ''\"'')))]"

definition NumericLiteral :: "int \<Rightarrow> string \<Rightarrow> jv" where
  "NumericLiteral n raw = mk ''Literal'' [(''value'', JNum n), (''raw'', JStr (js raw))]"

definition MemberExpression :: "jv \<Rightarrow> string \<Rightarrow> jv" where
  "MemberExpression object property =
     mk ''MemberExpression'' [(''object'', object), (''property'', Identifier property),
                              (''computed'', JBool False), (''optional'', JBool False)]"

definition CallExpression :: "jv \<Rightarrow> jv list \<Rightarrow> jv" where
  "CallExpression callee arguments =
     mk ''CallExpression'' [(''callee'', callee), (''arguments'', JArr arguments),
                            (''optional'', JBool False)]"

definition ExpressionStatement :: "jv \<Rightarrow> jv" where
  "ExpressionStatement e = mk ''ExpressionStatement'' [(''expression'', e)]"

definition Property :: "string \<Rightarrow> jv \<Rightarrow> jv" where
  "Property key v =
     mk ''Property'' [(''method'', JBool False), (''shorthand'', JBool False),
                      (''computed'', JBool False), (''key'', Identifier key),
                      (''value'', v), (''kind'', JStr (js ''init''))]"

definition ObjectExpression :: "jv list \<Rightarrow> jv" where
  "ObjectExpression properties = mk ''ObjectExpression'' [(''properties'', JArr properties)]"

definition BinaryExpression :: "jv \<Rightarrow> string \<Rightarrow> jv \<Rightarrow> jv" where
  "BinaryExpression l operator r =
     mk ''BinaryExpression'' [(''left'', l), (''operator'', JStr (js operator)), (''right'', r)]"

definition ReturnStatement :: "jv \<Rightarrow> jv" where
  "ReturnStatement argument = mk ''ReturnStatement'' [(''argument'', argument)]"

definition FunctionDeclaration :: "string \<Rightarrow> jv list \<Rightarrow> jv" where
  "FunctionDeclaration name body =
     mk ''FunctionDeclaration''
        [(''id'', Identifier name), (''expression'', JBool False), (''generator'', JBool False),
         (''async'', JBool False), (''params'', JArr []),
         (''body'', mk ''BlockStatement'' [(''body'', JArr body)])]"

definition Program :: "jv list \<Rightarrow> jv" where
  "Program body = mk ''Program'' [(''body'', JArr body), (''sourceType'', JStr (js ''module''))]"

text \<open>\<open>AKM.module({...})\<close> and \<open>AKM.command({name: ...}, handler)\<close> as statements.\<close>

definition module_call :: "jv list \<Rightarrow> jv" where
  "module_call properties =
     ExpressionStatement
       (CallExpression (MemberExpression (Identifier ''AKM'') ''module'')
                       [ObjectExpression properties])"

definition command_call :: "string \<Rightarrow> string \<Rightarrow> jv" where
  "command_call name handler =
     ExpressionStatement
       (CallExpression (MemberExpression (Identifier ''AKM'') ''command'')
                       [ObjectExpression [Property ''name'' (StringLiteral name)],
                        Identifier handler])"

text \<open>
  The minimal module:
  \<^verbatim>\<open>AKM.module({name: "a"}); function init() { return 0; } function exit() {}\<close>
\<close>

definition minimal_source :: jv where
  "minimal_source =
     Program [module_call [Property ''name'' (StringLiteral ''a'')],
              FunctionDeclaration ''init'' [ReturnStatement (NumericLiteral 0 ''0'')],
              FunctionDeclaration ''exit'' []]"

text \<open>The same module with \<open>init\<close> returning \<open>2 + 3\<close>.\<close>

definition fold_source :: jv where
  "fold_source =
     Program [module_call [Property ''name'' (StringLiteral ''a'')],
              FunctionDeclaration ''init''
                [ReturnStatement (BinaryExpression (NumericLiteral 2 ''2'') ''+''
                                                   (NumericLiteral 3 ''3''))],
              FunctionDeclaration ''exit'' []]"

text \<open>
  The expression \<open>AKM.CAPS.LOG | AKM.CAPS.MEMORY\<close>, and the minimal module declaring
  it as its capabilities.
\<close>

definition caps_expression :: jv where
  "caps_expression =
     BinaryExpression (MemberExpression (MemberExpression (Identifier ''AKM'') ''CAPS'') ''LOG'')
                      ''|''
                      (MemberExpression (MemberExpression (Identifier ''AKM'') ''CAPS'') ''MEMORY'')"

definition caps_source :: jv where
  "caps_source =
     Program [module_call [Property ''name'' (StringLiteral ''a''),
                           Property ''capabilities'' caps_expression],
              FunctionDeclaration ''init'' [ReturnStatement (NumericLiteral 0 ''0'')],
              FunctionDeclaration ''exit'' []]"

text \<open>
  The minimal module registering two commands, \<open>hi\<close> and \<open>yo\<close>, with handlers \<open>h\<close>
  and \<open>g\<close>, and calling \<open>AKM.malloc(16)\<close> in \<open>init\<close>.
\<close>

definition malloc_init :: jv where
  "malloc_init =
     FunctionDeclaration ''init''
       [ExpressionStatement
          (CallExpression (MemberExpression (Identifier ''AKM'') ''malloc'')
                          [NumericLiteral 16 ''16'']),
        ReturnStatement (NumericLiteral 0 ''0'')]"

definition commands_source :: jv where
  "commands_source =
     Program [module_call [Property ''name'' (StringLiteral ''a'')],
              FunctionDeclaration ''h'' [],
              FunctionDeclaration ''g'' [],
              command_call ''hi'' ''h'',
              command_call ''yo'' ''g'',
              malloc_init,
              FunctionDeclaration ''exit'' []]"



text \<open>The options of a plain run, and a coercion for the runs on concrete inputs.\<close>

definition default_options :: options where
  "default_options = \<lparr>opt_debug = False, opt_optimize = False, opt_capabilities = None\<rparr>"

definition no_number :: coercion where
  "no_number v = None"


text \<open>The empty source: no \<open>AKM.module\<close> call, no function.\<close>

definition empty_parsed :: parsed where
  "empty_parsed =
     \<lparr>pr_moduleConfig = [(js ''capabilities'', JNum 2048)], pr_functions = [],
      pr_commands = [], pr_apiCalls = [],
      pr_ir = \<lparr>ir_strings = [], ir_functions = []\<rparr>\<rparr>"

text \<open>What \<open>parse\<close> returns on the minimal module.\<close>

definition minimal_parsed :: parsed where
  "minimal_parsed =
     \<lparr>pr_moduleConfig = [(js ''name'', JStr (js ''a'')), (js ''capabilities'', JNum 2048)],
      pr_functions =
        [(js ''init'', \<lparr>fi_name = JStr (js ''init''),
            fi_node = FunctionDeclaration ''init'' [ReturnStatement (NumericLiteral 0 ''0'')],
            fi_params = [], fi_isExport = False\<rparr>),
         (js ''exit'', \<lparr>fi_name = JStr (js ''exit''),
            fi_node = FunctionDeclaration ''exit'' [],
            fi_params = [], fi_isExport = False\<rparr>)],
      pr_commands = [], pr_apiCalls = [],
      pr_ir = \<lparr>ir_strings = [js ''init'', js ''exit''],
                ir_functions =
                  [\<lparr>fn_name = js ''init'', fn_params = [],
                    fn_instructions = [Push (JNum 0), Ret], fn_locals = [],
                    fn_isInit = True, fn_isExit = False\<rparr>,
                   \<lparr>fn_name = js ''exit'', fn_params = [],
                    fn_instructions = [Ret], fn_locals = [],
                    fn_isInit = False, fn_isExit = True\<rparr>]\<rparr>\<rparr>"

section \<open>The header as a sequence of writes\<close>

text \<open>
  The 31 writes of \<open>write_header\<close>, in order, each as a function of the header buffer;
  \<open>run_steps\<close> runs them one after the other.
\<close>

definition run_steps :: "(byte list \<Rightarrow> error + byte list) list \<Rightarrow> byte list \<Rightarrow> error + byte list" where
  "run_steps steps = foldM (\<lambda>step buf. step buf) steps"

definition header_steps ::
    "coercion \<Rightarrow> options \<Rightarrow> codegenResult \<Rightarrow> moduleInfo \<Rightarrow> byte list \<Rightarrow> byte list
       \<Rightarrow> (byte list \<Rightarrow> error + byte list) list" where
  "header_steps tn opts codegenResult moduleInfo symtab strtab =
     (let code = cg_code codegenResult;
          data = cg_data codegenResult;
          headerSize = 512;
          codeOffset = headerSize;
          codeSize = length code;
          dataOffset = codeOffset + codeSize;
          dataSize = length data;
          symtabOffset = dataOffset + dataSize;
          symtabSize = length symtab;
          strtabOffset = symtabOffset + symtabSize;
          strtabSize = length strtab;
          totalSize = strtabOffset + strtabSize;
          flags = (if opt_debug opts then 1 else 0);
          depCount = map_option (\<lambda>n. min n 4) (js_length tn (mi_dependencies moduleInfo))
      in
      [(\<lambda>headerBuf. writeUInt32LE (Some 0x324D4B41) 0 headerBuf),
       (\<lambda>headerBuf. writeUInt16LE (Some 2) 4 headerBuf),
       (\<lambda>headerBuf. writeUInt16LE (Some flags) 6 headerBuf),
       (\<lambda>headerBuf. writeUInt32LE (Some 512) 8 headerBuf),
       (\<lambda>headerBuf. writeUInt32LE (Some (int totalSize)) 12 headerBuf),
       (\<lambda>headerBuf. writeFixedString headerBuf 16 (mi_name moduleInfo) 32),
       (\<lambda>headerBuf. writeFixedString headerBuf 48 (mi_version moduleInfo) 16),
       (\<lambda>headerBuf. writeFixedString headerBuf 64 (mi_author moduleInfo) 32),
       (\<lambda>headerBuf. writeUInt16LE (Some (uint ((word_of_int (mi_apiVersion
          moduleInfo) :: 32 word) AND 0xFFFF))) 96 headerBuf),
       (\<lambda>headerBuf. writeUInt32LE (Some (mi_kernelMinVersion moduleInfo)) 100
          headerBuf),
       (\<lambda>headerBuf. writeUInt32LE (Some (mi_kernelMaxVersion moduleInfo)) 104
          headerBuf),
       (\<lambda>headerBuf. writeUInt32LE (to_number tn (mi_capabilities moduleInfo)) 108
          headerBuf),
       (\<lambda>headerBuf. writeUInt32LE (Some (int codeOffset)) 116 headerBuf),
       (\<lambda>headerBuf. writeUInt32LE (Some (int codeSize)) 120 headerBuf),
       (\<lambda>headerBuf. writeUInt32LE (Some (int dataOffset)) 124 headerBuf),
       (\<lambda>headerBuf. writeUInt32LE (Some (int dataSize)) 128 headerBuf),
       (\<lambda>headerBuf. writeUInt32LE (Some 0) 132 headerBuf),
       (\<lambda>headerBuf. writeUInt32LE (Some 0) 136 headerBuf),
       (\<lambda>headerBuf. writeUInt32LE (Some 0) 140 headerBuf),
       (\<lambda>headerBuf. writeUInt32LE (Some (int (cg_initOffset codegenResult))) 164
          headerBuf),
       (\<lambda>headerBuf. writeUInt32LE (Some (int (cg_exitOffset codegenResult))) 168
          headerBuf),
       (\<lambda>headerBuf. writeUInt32LE (Some (int symtabOffset)) 180 headerBuf),
       (\<lambda>headerBuf. writeUInt32LE (Some (int symtabSize)) 184 headerBuf),
       (\<lambda>headerBuf. writeUInt32LE (Some (int strtabOffset)) 188 headerBuf),
       (\<lambda>headerBuf. writeUInt32LE (Some (int strtabSize)) 192 headerBuf),
       (\<lambda>headerBuf. writeUInt8 depCount 212 headerBuf),
       (\<lambda>headerBuf. foldM (write_dependency depCount (mi_dependencies moduleInfo))
          [0, 1, 2, 3] headerBuf),
       (\<lambda>headerBuf. writeUInt8 (to_number tn (or_else (mi_securityLevel moduleInfo)
          (JNum 0))) 344 headerBuf),
       (\<lambda>headerBuf. writeUInt8 (Some 0) 345 headerBuf),
       (\<lambda>headerBuf. writeUInt32LE (Some (int (calculateChecksum (code @ data @ symtab
          @ strtab)))) 352 headerBuf),
       (\<lambda>headerBuf. writeUInt32LE (Some (int (calculateChecksum (take 348 headerBuf @
          drop (348 + 4) headerBuf)))) 348 headerBuf)])"

text \<open>A write that keeps the length of the header and its first \<open>off\<close> bytes.\<close>

definition frame_ok :: "nat \<Rightarrow> (byte list \<Rightarrow> error + byte list) \<Rightarrow> bool" where
  "frame_ok off f =
     (\<forall>buf buf'. f buf = Inr buf' \<longrightarrow> length buf = 512
        \<longrightarrow> length buf' = 512 \<and> take off buf' = take off buf)"

section \<open>The checksum in words\<close>

text \<open>
  The rolling hash on 32-bit words: the accumulator starts at 0 and becomes
  \<open>rotate_left_32 (acc + b, 1)\<close> for each byte \<open>b\<close>.
\<close>

definition rolling_hash :: "byte list \<Rightarrow> 32 word" where
  "rolling_hash bytes = foldl (\<lambda>acc b. word_rotl 1 (acc + ucast b)) 0 bytes"

section \<open>Auxiliary notions and expected values\<close>

text \<open>
  A write that succeeds on every header of 512 bytes and keeps its length, and a value
  that passes the range check of a write (\<open>None\<close>, that is \<open>NaN\<close>, always does).
\<close>

definition step_ok :: "(byte list \<Rightarrow> error + byte list) \<Rightarrow> bool" where
  "step_ok f = (\<forall>buf. length buf = 512 \<longrightarrow> (\<exists>buf'. f buf = Inr buf' \<and> length buf' = 512))"

definition in_range :: "int \<Rightarrow> int option \<Rightarrow> bool" where
  "in_range m v = (case v of None \<Rightarrow> True | Some x \<Rightarrow> 0 \<le> x \<and> x \<le> m)"

text \<open>
  The code, the string bytes and the symbol table of the compiled minimal module; the
  lemmas below derive them from \<open>generate\<close> and \<open>buildSymbolTable\<close>.
\<close>

definition minimal_code :: "byte list" where
  "minimal_code = [0, 1, 0, 0, 0, 0, 85, 0, 85]"

definition minimal_strings :: "byte list" where
  "minimal_strings = [105, 110, 105, 116, 0, 101, 120, 105, 116, 0]"

definition minimal_symtab :: "byte list" where
  "minimal_symtab = [0, 0, 0, 0, 0, 0, 0, 0, 0, 0, 1, 1, 5, 0, 0, 0, 7, 0, 0, 0, 0, 0, 1, 1]"

text \<open>What \<open>parse\<close> returns on the module whose \<open>init\<close> returns \<open>2 + 3\<close>.\<close>

definition fold_parsed :: parsed where
  "fold_parsed =
     \<lparr>pr_moduleConfig = [(js ''name'', JStr (js ''a'')), (js ''capabilities'', JNum 2048)],
      pr_functions =
        [(js ''init'', \<lparr>fi_name = JStr (js ''init''),
            fi_node = FunctionDeclaration ''init''
                [ReturnStatement (BinaryExpression (NumericLiteral 2 ''2'') ''+''
                                                   (NumericLiteral 3 ''3''))],
            fi_params = [], fi_isExport = False\<rparr>),
         (js ''exit'', \<lparr>fi_name = JStr (js ''exit''),
            fi_node = FunctionDeclaration ''exit'' [],
            fi_params = [], fi_isExport = False\<rparr>)],
      pr_commands = [], pr_apiCalls = [],
      pr_ir = \<lparr>ir_strings = [js ''init'', js ''exit''],
                ir_functions =
                  [\<lparr>fn_name = js ''init'', fn_params = [],
                    fn_instructions = [Push JNull, Ret], fn_locals = [],
                    fn_isInit = True, fn_isExit = False\<rparr>,
                   \<lparr>fn_name = js ''exit'', fn_params = [],
                    fn_instructions = [Ret], fn_locals = [],
                    fn_isInit = False, fn_isExit = True\<rparr>]\<rparr>\<rparr>"

text \<open>The result of the code generator and the module info for the minimal module.\<close>

definition minimal_cg :: codegenResult where
  "minimal_cg =
     \<lparr>cg_code = minimal_code, cg_data = minimal_strings,
      cg_strings = [js ''init'', js ''exit''],
      cg_functions = [(js ''init'', 0), (js ''exit'', 7)],
      cg_initOffset = 0, cg_exitOffset = 7, cg_codeSize = 9, cg_dataSize = 10\<rparr>"

definition minimal_info :: moduleInfo where
  "minimal_info =
     \<lparr>mi_name = JStr (js ''a''), mi_version = JStr (js ''1.0.0''), mi_author = JStr [],
      mi_description = JStr [], mi_license = JStr (js ''MIT''), mi_capabilities = JNum 2048,
      mi_apiVersion = 0x0200, mi_kernelMinVersion = 0x00080000, mi_kernelMaxVersion = 0,
      mi_dependencies = JArr [], mi_securityLevel = JNum 0\<rparr>"

text \<open>
  Invariants of the code generator: \<open>currentOffset\<close> is the length of the code; the
  code only grows; every recorded function offset is below the length of the code.
\<close>

definition cs_ok :: "codegen \<Rightarrow> bool" where
  "cs_ok cs = (cs_currentOffset cs = length (cs_code cs))"

definition grows :: "codegen \<Rightarrow> codegen \<Rightarrow> bool" where
  "grows cs cs' = (cs_ok cs' \<and> length (cs_code cs) \<le> length (cs_code cs'))"

definition offsets_ok :: "(jsstring \<times> nat) list \<times> codegen \<Rightarrow> bool" where
  "offsets_ok st = (cs_ok (snd st) \<and> (\<forall>off \<in> snd ` set (fst st). off < length (cs_code (snd st))))"














section \<open>Evaluation on concrete inputs\<close>

declare evaluateLiteral.simps [simp del]

lemmas ast_defs = mk_def Identifier_def StringLiteral_def NumericLiteral_def
  MemberExpression_def CallExpression_def ExpressionStatement_def Property_def
  ObjectExpression_def BinaryExpression_def ReturnStatement_def FunctionDeclaration_def
  Program_def module_call_def command_call_def

lemmas parse_defs = parse_def extractModuleConfig_def extractFunctions_def
  extractCommands_def extractAPICalls_def computeRequiredCapabilities_def generateIR_def
  lowerFunction_def generateFunctionIR_def visit_node_def lower_arg_def injectCommands_def
  insertIdx_def splice_def regCalls_def addString_def akm_call_def callee_method_def
  call_args_def has_type_def node_type_def skipped_key_def bind_def property_key_def
  set_function_def id_name_def or_else_def as_string_def js_or_def to_int32_def
  api_capability_def

lemma js_simps: "js [] = []" "js (c # cs) = of_nat (of_char c) # js cs"
  by (simp_all add: js_def)

lemmas codegen_defs = generate_def buildStringTable_def generateFunctions_def
  generateFunction_def emit_def emitInt32_def emitValue_def int32_bytes_def to_int32_def
  addFixup_def resolveFixups_def label_target_def generateCommandStubs_def
  buildDataSection_def stub_bytes_def function_offset_def string_offset_def cstring_def
  utf8_def utf8_1_def getAPIIndex_def indexOf_def

lemma js_char_inj: "(of_nat (of_char c) :: 16 word) = of_nat (of_char d) \<longleftrightarrow> c = d"
proof -
  have lt: "of_char x < (2::nat) ^ 16" for x :: char
  proof -
    have "of_char x < (256::nat)" by simp
    moreover have "(256::nat) < 2 ^ 16" by simp
    ultimately show ?thesis by (rule less_trans)
  qed
  have "take_bit 16 (of_char x :: nat) = of_char x" for x :: char
    using lt[of x] by (simp only: take_bit_nat_eq_self)
  then have "(of_nat (of_char c) :: 16 word) = of_nat (of_char d) \<longleftrightarrow> (of_char c :: nat) = of_char d"
    by (simp add: word_of_nat_eq_iff)
  then show ?thesis by simp
qed

lemma js_inject [simp]: "js s = js t \<longleftrightarrow> s = t"
proof (induction s arbitrary: t)
  case Nil
  then show ?case by (cases t) (simp_all add: js_def)
next
  case (Cons c s)
  then show ?case by (cases t) (auto simp: js_def js_char_inj)
qed

lemma js_Nil [simp]: "js s = [] \<longleftrightarrow> s = []" "[] = js s \<longleftrightarrow> s = []"
  by (auto simp: js_def)

section \<open>Operations that may raise\<close>

lemma bind_Inr_iff: "bind m f = Inr y \<longleftrightarrow> (\<exists>x. m = Inr x \<and> f x = Inr y)"
  by (cases m) (simp_all add: bind_def)

lemma bind_Inl [simp]: "bind (Inl e) f = Inl e"
  by (simp add: bind_def)

lemma bind_Inr [simp]: "bind (Inr x) f = f x"
  by (simp add: bind_def)

lemma foldM_unchanged:
  assumes "\<And>x s. x \<in> set xs \<Longrightarrow> f x s = Inr s"
  shows "foldM f xs s = Inr s"
  using assms by (induction xs) simp_all

lemma foldM_append:
  "foldM f (xs @ ys) s = bind (foldM f xs s) (foldM f ys)"
  by (induction xs arbitrary: s) (simp_all add: bind_def split: sum.splits)

section \<open>The checksum is the rolling hash\<close>

lemma rotl1: "word_rotl (Suc 0) (w :: 32 word) = w * 2 OR drop_bit 31 w"
proof (rule bit_word_eqI)
  fix n :: nat
  assume n: "n < LENGTH(32)"
  have d: "bit (w * 2) n \<longleftrightarrow> n \<noteq> 0 \<and> bit w (n - 1)"
    using n bit_double_iff[of w n] by (auto simp: mult.commute possible_bit_word)
  show "bit (word_rotl (Suc 0) w) n = bit (w * 2 OR drop_bit 31 w) n"
  proof (cases n)
    case 0
    then show ?thesis
      using d by (simp add: bit_word_rotl_iff bit_or_iff bit_drop_bit_eq)
  next
    case (Suc m)
    have "(n + 31) mod 32 = m" using Suc n by simp
    moreover have "\<not> bit w (31 + n)" using Suc bit_imp_le_length[of w "31 + n"] by auto
    ultimately show ?thesis using n d Suc
      by (simp add: bit_word_rotl_iff bit_or_iff bit_drop_bit_eq)
  qed
qed

lemma checksum_step:
  fixes acc :: "32 word"
  shows "foldl (\<lambda>checksum b. let w = (of_nat (checksum + unat b) :: 32 word)
                        in unat (push_bit 1 w OR drop_bit 31 w)) (unat acc) data
   = unat (foldl (\<lambda>acc b. word_rotl 1 (acc + ucast b)) acc data)"
proof (induction data arbitrary: acc)
  case Nil
  show ?case by simp
next
  case (Cons b data)
  have "(of_nat (unat acc + unat b) :: 32 word) = acc + ucast b"
    by simp
  then show ?case using Cons.IH[of "word_rotl 1 (acc + ucast b)"]
    by (simp add: rotl1 Let_def)
qed

lemma calculateChecksum_rolling_hash: "calculateChecksum data = unat (rolling_hash data)"
  using checksum_step[of 0 data] by (simp add: calculateChecksum_def rolling_hash_def)

section \<open>Writes into a buffer\<close>

lemma length_put [simp]: "off \<le> length buf \<Longrightarrow> length (put off bs buf) = length buf"
  by (auto simp: put_def min_def)

lemma take_put [simp]: "k \<le> off \<Longrightarrow> off \<le> length buf \<Longrightarrow> take k (put off bs buf) = take k buf"
  by (simp add: put_def min_absorb2)

lemma drop_put [simp]:
  "off + length bs \<le> k \<Longrightarrow> off + length bs \<le> length buf \<Longrightarrow> drop k (put off bs buf) = drop k buf"
  by (simp add: put_def min_absorb2)

lemma put_slice:
  "off + length bs \<le> length buf \<Longrightarrow> take (length bs) (drop off (put off bs buf)) = bs"
  by (simp add: put_def min_absorb2)

lemma length_le32 [simp]: "length (le32 n) = 4"
  by (simp add: le32_def)

lemma unat_byte_of_nat: "unat (of_nat n :: byte) = n mod 256"
  by (simp add: unat_of_nat)

lemma le32_value:
  assumes "n < 2 ^ 32"
  shows "unat (le32 n ! 0) + 256 * unat (le32 n ! 1) + 65536 * unat (le32 n ! 2)
           + 16777216 * unat (le32 n ! 3) = n"
proof -
  have 1: "n = n mod 256 + 256 * (n div 256)" by simp
  have d2: "n div 65536 = n div 256 div 256" and d3: "n div 16777216 = n div 65536 div 256"
    by (simp_all add: div_mult2_eq[symmetric])
  have 2: "n div 256 = (n div 256) mod 256 + 256 * (n div 65536)"
    unfolding d2 by simp
  have 3: "n div 65536 = (n div 65536) mod 256 + 256 * (n div 16777216)"
    unfolding d3 by simp
  have "n div 16777216 < 256" using assms by simp
  then have 4: "(n div 16777216) mod 256 = n div 16777216" by simp
  have "n mod 256 + 256 * ((n div 256) mod 256) + 65536 * ((n div 65536) mod 256)
          + 16777216 * ((n div 16777216) mod 256) = n"
    using 1 2 3 4 by linarith
  then show ?thesis using 4 by (simp add: le32_def unat_byte_of_nat)
qed

lemma readUInt32LE_slice:
  assumes "off + 4 \<le> length buf" "take 4 (drop off buf) = le32 n" "n < 2 ^ 32"
  shows "readUInt32LE buf off = n"
proof -
  have "buf ! (off + i) = le32 n ! i" if "i < 4" for i
  proof -
    have "take 4 (drop off buf) ! i = drop off buf ! i" using that by simp
    also have "\<dots> = buf ! (off + i)" using assms(1) that by simp
    finally show ?thesis using assms(2) by simp
  qed
  from this[of 0] this[of 1] this[of 2] this[of 3] show ?thesis
    using le32_value[OF assms(3)] by (simp add: readUInt32LE_def)
qed

section \<open>The fields of the header\<close>

lemma run_steps_simps [simp]:
  "run_steps [] buf = Inr buf"
  "run_steps (f # fs) buf = bind (f buf) (run_steps fs)"
  by (simp_all add: run_steps_def bind_def split: sum.splits)

lemma run_steps_map: "run_steps (map g xs) buf = foldM g xs buf"
  by (induction xs arbitrary: buf) (simp_all add: bind_def split: sum.splits)

lemma run_steps_append: "run_steps (fs @ gs) buf = bind (run_steps fs buf) (run_steps gs)"
  by (simp add: run_steps_def foldM_append)

lemma frame_w32:
  "off \<le> ofs \<Longrightarrow> ofs + 4 \<le> 512 \<Longrightarrow> frame_ok off (\<lambda>h. writeUInt32LE (g h) ofs h)"
  by (auto simp: frame_ok_def writeUInt32LE_def split: option.splits if_splits)

lemma frame_w16:
  "off \<le> ofs \<Longrightarrow> ofs + 2 \<le> 512 \<Longrightarrow> frame_ok off (\<lambda>h. writeUInt16LE (g h) ofs h)"
  by (auto simp: frame_ok_def writeUInt16LE_def le16_def split: option.splits if_splits)

lemma frame_w8:
  "off \<le> ofs \<Longrightarrow> ofs + 1 \<le> 512 \<Longrightarrow> frame_ok off (\<lambda>h. writeUInt8 (g h) ofs h)"
  by (auto simp: frame_ok_def writeUInt8_def split: option.splits if_splits)

lemma frame_fixed:
  "off \<le> ofs \<Longrightarrow> ofs \<le> 512 \<Longrightarrow> frame_ok off (\<lambda>h. writeFixedString h ofs s m)"
  by (auto simp: frame_ok_def writeFixedString_def buf_write_def split: jv.splits)

lemma frame_dependency:
  "off \<le> 216 \<Longrightarrow> i < 4 \<Longrightarrow> frame_ok off (write_dependency depCount deps i)"
  using frame_fixed[of off "216 + 32 * i"]
  by (auto simp: frame_ok_def write_dependency_def)

lemma frame_run_steps:
  assumes "\<forall>f \<in> set fs. frame_ok off f"
  shows "frame_ok off (run_steps fs)"
  using assms
proof (induction fs)
  case Nil
  then show ?case by (simp add: frame_ok_def)
next
  case (Cons f fs)
  then have f: "frame_ok off f" and fs: "frame_ok off (run_steps fs)" by simp_all
  show ?case unfolding frame_ok_def
  proof (intro allI impI)
    fix buf buf' assume r: "run_steps (f # fs) buf = Inr buf'" and l: "length buf = 512"
    then obtain b1 where b1: "f buf = Inr b1" "run_steps fs b1 = Inr buf'"
      by (auto simp: bind_Inr_iff)
    from f b1(1) l have "length b1 = 512 \<and> take off b1 = take off buf"
      by (simp add: frame_ok_def)
    moreover from fs b1(2) this have "length buf' = 512 \<and> take off buf' = take off b1"
      by (simp add: frame_ok_def)
    ultimately show "length buf' = 512 \<and> take off buf' = take off buf" by simp
  qed
qed

lemma frame_dependencies:
  assumes "off \<le> 216" "\<forall>i \<in> set idxs. i < 4"
  shows "frame_ok off (foldM (write_dependency depCount deps) idxs)"
proof -
  have "frame_ok off (run_steps (map (write_dependency depCount deps) idxs))"
    using assms by (intro frame_run_steps) (simp add: frame_dependency)
  moreover have "run_steps (map (write_dependency depCount deps) idxs)
                 = foldM (write_dependency depCount deps) idxs"
    by (rule ext) (rule run_steps_map)
  ultimately show ?thesis by simp
qed

lemma run_steps_fun:
  "run_steps [] = Inr"
  "run_steps (f # fs) = (\<lambda>buf. bind (f buf) (run_steps fs))"
  by (rule ext, simp)+

lemma bind_return: "bind m Inr = m"
  by (cases m) simp_all

lemma write_header_steps:
  "write_header tn opts cg mi symtab strtab =
     run_steps (header_steps tn opts cg mi symtab strtab) (replicate 512 0)"
  unfolding write_header_def header_steps_def Let_def
  by (simp only: run_steps_fun bind_return)

lemma field_final:
  assumes run: "run_steps fs buf0 = Inr h" and len: "length buf0 = 512"
    and i: "i < length fs" and fi: "fs ! i = writeUInt32LE (Some v) ofs" and ofs: "ofs + 4 \<le> 512"
    and pre: "\<forall>f \<in> set (take i fs). frame_ok 0 f"
    and post: "\<forall>f \<in> set (drop (Suc i) fs). frame_ok (ofs + 4) f"
  shows "0 \<le> v \<and> v \<le> 0xFFFFFFFF \<and> take 4 (drop ofs h) = le32 (nat v) \<and> length h = 512"
proof -
  have fs: "fs = take i fs @ (writeUInt32LE (Some v) ofs # drop (Suc i) fs)"
    using i fi id_take_nth_drop by metis
  from run obtain h1 h2 where h1: "run_steps (take i fs) buf0 = Inr h1"
    and h2: "writeUInt32LE (Some v) ofs h1 = Inr h2"
    and h: "run_steps (drop (Suc i) fs) h2 = Inr h"
    by (subst (asm) fs) (auto simp: run_steps_append bind_Inr_iff)
  have l1: "length h1 = 512"
    using frame_run_steps[OF pre] h1 len by (simp add: frame_ok_def)
  from h2 have v: "0 \<le> v" "v \<le> 0xFFFFFFFF" and h2': "h2 = put ofs (le32 (nat v)) h1"
    by (auto simp: writeUInt32LE_def split: if_splits)
  have l2: "length h2 = 512" using l1 ofs by (simp add: h2')
  have s2: "take 4 (drop ofs h2) = le32 (nat v)"
    using put_slice[of ofs "le32 (nat v)" h1] l1 ofs by (simp add: h2')
  have fr: "length h = 512 \<and> take (ofs + 4) h = take (ofs + 4) h2"
    using frame_run_steps[OF post] h l2 by (simp add: frame_ok_def)
  have "take 4 (drop ofs h) = drop ofs (take (ofs + 4) h)"
    by (simp add: drop_take add.commute)
  also have "\<dots> = drop ofs (take (ofs + 4) h2)" using fr by simp
  also have "\<dots> = take 4 (drop ofs h2)" by (simp add: drop_take add.commute)
  finally show ?thesis using v s2 fr by simp
qed

lemmas frame_rules = frame_w32 frame_w16 frame_w8 frame_fixed frame_dependencies

lemma header_steps_length: "length (header_steps tn opts cg mi symtab strtab) = 31"
  by (simp add: header_steps_def Let_def)

lemma header_frames_pre:
  "\<forall>f \<in> set (header_steps tn opts cg mi symtab strtab). frame_ok 0 f"
  by (simp add: header_steps_def Let_def frame_rules del: foldM.simps)

lemma header_pre: "\<forall>f \<in> set (take i (header_steps tn opts cg mi symtab strtab)). frame_ok 0 f"
  using header_frames_pre by (meson in_set_takeD)

lemma header_field:
  assumes "write_header tn opts cg mi symtab strtab = Inr h"
    and "i < 31" "header_steps tn opts cg mi symtab strtab ! i = writeUInt32LE (Some (int n)) ofs"
    and "ofs + 4 \<le> 512"
    and "\<forall>f \<in> set (drop (Suc i) (header_steps tn opts cg mi symtab strtab)). frame_ok (ofs + 4) f"
  shows "take 4 (drop ofs h) = le32 n \<and> n < 2 ^ 32 \<and> length h = 512"
proof -
  have "0 \<le> int n \<and> int n \<le> 0xFFFFFFFF \<and> take 4 (drop ofs h) = le32 (nat (int n)) \<and> length h = 512"
    using assms header_pre
    by (intro field_final[where fs = "header_steps tn opts cg mi symtab strtab"
                            and ?buf0.0 = "replicate 512 0" and i = i])
       (simp_all add: write_header_steps header_steps_length)
  then show ?thesis by simp
qed

lemma header_total_size:
  assumes "write_header tn opts cg mi symtab strtab = Inr h"
  shows "take 4 (drop 12 h) = le32 (512 + length (cg_code cg) + length (cg_data cg) + length symtab + length strtab)
    \<and> 512 + length (cg_code cg) + length (cg_data cg) + length symtab + length strtab < 2 ^ 32
    \<and> length h = 512"
  by (rule header_field[OF assms, of 4])
     (simp_all add: header_steps_def Let_def frame_rules del: foldM.simps)

lemma calculateChecksum_bound: "calculateChecksum data < 2 ^ 32"
  using unsigned_less[of "rolling_hash data", where 'a = nat]
  by (simp add: calculateChecksum_rolling_hash)

lemmas header_eval = header_steps_def Let_def frame_rules

lemma header_magic:
  assumes "write_header tn opts cg mi symtab strtab = Inr h"
  shows "take 4 (drop 0 h) = le32 0x324D4B41 \<and> (0x324D4B41 :: nat) < 2 ^ 32 \<and> length h = 512"
  by (rule header_field[OF assms, of 0]) (simp_all add: header_eval del: foldM.simps)

lemma header_code_offset:
  assumes "write_header tn opts cg mi symtab strtab = Inr h"
  shows "take 4 (drop 116 h) = le32 512 \<and> (512 :: nat) < 2 ^ 32 \<and> length h = 512"
  by (rule header_field[OF assms, of 12]) (simp_all add: header_eval del: foldM.simps)

lemma header_code_size:
  assumes "write_header tn opts cg mi symtab strtab = Inr h"
  shows "take 4 (drop 120 h) = le32 (length (cg_code cg)) \<and> length (cg_code cg) < 2 ^ 32
         \<and> length h = 512"
  by (rule header_field[OF assms, of 13]) (simp_all add: header_eval del: foldM.simps)

lemma header_data_size:
  assumes "write_header tn opts cg mi symtab strtab = Inr h"
  shows "take 4 (drop 128 h) = le32 (length (cg_data cg)) \<and> length (cg_data cg) < 2 ^ 32
         \<and> length h = 512"
  by (rule header_field[OF assms, of 15]) (simp_all add: header_eval del: foldM.simps)

lemma header_symtab_offset:
  assumes "write_header tn opts cg mi symtab strtab = Inr h"
  shows "take 4 (drop 180 h) = le32 (512 + length (cg_code cg) + length (cg_data cg))
         \<and> 512 + length (cg_code cg) + length (cg_data cg) < 2 ^ 32 \<and> length h = 512"
  by (rule header_field[OF assms, of 21]) (simp_all add: header_eval del: foldM.simps)

lemma header_symtab_size:
  assumes "write_header tn opts cg mi symtab strtab = Inr h"
  shows "take 4 (drop 184 h) = le32 (length symtab) \<and> length symtab < 2 ^ 32 \<and> length h = 512"
  by (rule header_field[OF assms, of 22]) (simp_all add: header_eval del: foldM.simps)

lemma header_strtab_size:
  assumes "write_header tn opts cg mi symtab strtab = Inr h"
  shows "take 4 (drop 192 h) = le32 (length strtab) \<and> length strtab < 2 ^ 32 \<and> length h = 512"
  by (rule header_field[OF assms, of 24]) (simp_all add: header_eval del: foldM.simps)

lemma header_capabilities:
  assumes "write_header tn opts cg mi symtab strtab = Inr h"
    and "to_number tn (mi_capabilities mi) = Some v"
  shows "0 \<le> v \<and> v \<le> 0xFFFFFFFF \<and> take 4 (drop 108 h) = le32 (nat v) \<and> length h = 512"
  using assms header_pre[of 11 tn opts cg mi symtab strtab]
  by (intro field_final[where fs = "header_steps tn opts cg mi symtab strtab"
                          and ?buf0.0 = "replicate 512 0" and i = 11])
     (simp_all add: write_header_steps header_steps_length, simp_all add: header_eval del: foldM.simps)

lemma header_checksums:
  assumes "write_header tn opts cg mi symtab strtab = Inr h"
  shows "take 4 (drop 352 h) = le32 (calculateChecksum (cg_code cg @ cg_data cg @ symtab @ strtab))
       \<and> take 4 (drop 348 h) = le32 (calculateChecksum (take 348 h @ drop 352 h))
       \<and> length h = 512"
proof -
  let ?fs = "header_steps tn opts cg mi symtab strtab"
  let ?cc = "calculateChecksum (cg_code cg @ cg_data cg @ symtab @ strtab)"
  have split: "?fs = take 29 ?fs @ drop 29 ?fs" by simp
  have last2: "drop 29 ?fs =
      [(\<lambda>h. writeUInt32LE (Some (int ?cc)) 352 h),
       (\<lambda>h. writeUInt32LE (Some (int (calculateChecksum (take 348 h @ drop (348 + 4) h)))) 348 h)]"
    by (simp add: header_steps_def Let_def)
  have "run_steps (take 29 ?fs @ drop 29 ?fs) (replicate 512 0) = Inr h"
    using assms unfolding write_header_steps by (simp only: append_take_drop_id)
  then obtain h29 where h29: "run_steps (take 29 ?fs) (replicate 512 0) = Inr h29"
    and rest: "run_steps (drop 29 ?fs) h29 = Inr h"
    unfolding run_steps_append by (auto simp only: bind_Inr_iff)
  have l29: "length h29 = 512"
    using frame_run_steps[OF header_pre[of 29 tn opts cg mi symtab strtab]] h29
    by (simp add: frame_ok_def)
  from rest obtain h30 where h30: "writeUInt32LE (Some (int ?cc)) 352 h29 = Inr h30"
    and h: "writeUInt32LE (Some (int (calculateChecksum (take 348 h30 @ drop 352 h30)))) 348 h30 = Inr h"
    unfolding last2 by (auto simp: bind_Inr_iff)
  have h30': "h30 = put 352 (le32 ?cc) h29"
    using h30 by (auto simp: writeUInt32LE_def split: if_splits)
  have h': "h = put 348 (le32 (calculateChecksum (take 348 h30 @ drop 352 h30))) h30"
    using h by (auto simp: writeUInt32LE_def split: if_splits)
  have l30: "length h30 = 512" using l29 by (simp add: h30')
  have a: "take 348 h = take 348 h30" using l30 by (simp add: h')
  have b: "drop 352 h = drop 352 h30" using l30 by (simp add: h')
  have c: "take 4 (drop 348 h) = le32 (calculateChecksum (take 348 h30 @ drop 352 h30))"
    using put_slice[of 348 "le32 (calculateChecksum (take 348 h30 @ drop 352 h30))" h30] l30
    by (simp add: h')
  have d: "take 4 (drop 352 h30) = le32 ?cc"
    using put_slice[of 352 "le32 ?cc" h29] l29 by (simp add: h30')
  show ?thesis using a b c d l30 by (simp add: h')
qed

section \<open>The minimal module\<close>

lemma parse_minimal: "parse tn (Some minimal_source) = Inr (Parsed minimal_parsed)"
  by (simp add: minimal_source_def minimal_parsed_def ast_defs parse_defs OP_defs
                CAP_defs evaluateLiteral.simps)

lemma generate_minimal:
  "generate minimal_parsed =
     Inr \<lparr>cg_code = [0, 1, 0, 0, 0, 0, 85, 0, 85],
          cg_data = [105, 110, 105, 116, 0, 101, 120, 105, 116, 0],
          cg_strings = [js ''init'', js ''exit''],
          cg_functions = [(js ''init'', 0), (js ''exit'', 7)],
          cg_initOffset = 0, cg_exitOffset = 7, cg_codeSize = 9, cg_dataSize = 10\<rparr>"
  by (simp add: minimal_parsed_def codegen_defs js_simps OP_defs Let_def bind_def)

section \<open>Writing the header succeeds\<close>

lemma ok_run_steps:
  assumes "\<forall>f \<in> set fs. step_ok f"
  shows "step_ok (run_steps fs)"
  using assms
proof (induction fs)
  case Nil
  then show ?case by (simp add: step_ok_def)
next
  case (Cons f fs)
  then have f: "step_ok f" and fs: "step_ok (run_steps fs)" by simp_all
  show ?case unfolding step_ok_def
  proof (intro allI impI)
    fix buf :: "byte list" assume l: "length buf = 512"
    with f obtain b1 where b1: "f buf = Inr b1" "length b1 = 512"
      by (auto simp: step_ok_def)
    with fs obtain b2 where "run_steps fs b1 = Inr b2" "length b2 = 512"
      by (auto simp: step_ok_def)
    with b1 show "\<exists>buf'. run_steps (f # fs) buf = Inr buf' \<and> length buf' = 512" by simp
  qed
qed

lemma ok_w32:
  assumes "\<And>h. in_range 0xFFFFFFFF (g h)" "ofs + 4 \<le> 512"
  shows "step_ok (\<lambda>h. writeUInt32LE (g h) ofs h)"
  unfolding step_ok_def
proof (intro allI impI)
  fix buf :: "byte list"
  assume "length buf = 512"
  then show "\<exists>buf'. writeUInt32LE (g buf) ofs buf = Inr buf' \<and> length buf' = 512"
    using assms(1)[of buf] assms(2)
    by (auto simp: writeUInt32LE_def in_range_def split: option.splits)
qed

lemma ok_w16:
  assumes "\<And>h. in_range 0xFFFF (g h)" "ofs + 2 \<le> 512"
  shows "step_ok (\<lambda>h. writeUInt16LE (g h) ofs h)"
  unfolding step_ok_def
proof (intro allI impI)
  fix buf :: "byte list"
  assume "length buf = 512"
  then show "\<exists>buf'. writeUInt16LE (g buf) ofs buf = Inr buf' \<and> length buf' = 512"
    using assms(1)[of buf] assms(2)
    by (auto simp: writeUInt16LE_def in_range_def le16_def split: option.splits)
qed

lemma ok_w8:
  assumes "\<And>h. in_range 0xFF (g h)" "ofs + 1 \<le> 512"
  shows "step_ok (\<lambda>h. writeUInt8 (g h) ofs h)"
  unfolding step_ok_def
proof (intro allI impI)
  fix buf :: "byte list"
  assume "length buf = 512"
  then show "\<exists>buf'. writeUInt8 (g buf) ofs buf = Inr buf' \<and> length buf' = 512"
    using assms(1)[of buf] assms(2)
    by (auto simp: writeUInt8_def in_range_def split: option.splits)
qed

lemma ok_fixed:
  "or_else s (JStr []) = JStr t \<Longrightarrow> ofs \<le> 512 \<Longrightarrow> step_ok (\<lambda>h. writeFixedString h ofs s m)"
  by (auto simp: step_ok_def writeFixedString_def buf_write_def)

lemma ok_no_dependencies:
  "step_ok (foldM (write_dependency (Some 0) deps) idxs)"
proof -
  have "foldM (write_dependency (Some 0) deps) idxs buf = Inr buf" for buf
    by (rule foldM_unchanged) (simp add: write_dependency_def)
  then show ?thesis by (simp add: step_ok_def)
qed

lemmas ok_rules = ok_w32 ok_w16 ok_w8 ok_fixed ok_no_dependencies

lemma write_header_succeeds:
  assumes size: "512 + length (cg_code cg) + length (cg_data cg) + length symtab + length strtab < 2 ^ 32"
    and name: "or_else (mi_name mi) (JStr []) = JStr n"
    and version: "or_else (mi_version mi) (JStr []) = JStr v"
    and author: "or_else (mi_author mi) (JStr []) = JStr a"
    and kernel: "in_range 0xFFFFFFFF (Some (mi_kernelMinVersion mi))"
                "in_range 0xFFFFFFFF (Some (mi_kernelMaxVersion mi))"
    and caps: "in_range 0xFFFFFFFF (to_number tn (mi_capabilities mi))"
    and entry: "cg_initOffset cg < 2 ^ 32" "cg_exitOffset cg < 2 ^ 32"
    and deps: "mi_dependencies mi = JArr []"
    and level: "in_range 0xFF (to_number tn (or_else (mi_securityLevel mi) (JNum 0)))"
  shows "\<exists>h. write_header tn opts cg mi symtab strtab = Inr h \<and> length h = 512"
proof -
  have api: "in_range 0xFFFF (Some (uint ((word_of_int (mi_apiVersion mi) :: 32 word) AND 0xFFFF)))"
  proof -
    have "(word_of_int (mi_apiVersion mi) :: 32 word) AND 0xFFFF \<le> 0xFFFF"
      by (rule word_and_le1)
    then have "uint ((word_of_int (mi_apiVersion mi) :: 32 word) AND 0xFFFF) \<le> uint (0xFFFF :: 32 word)"
      by (simp only: word_le_def)
    then show ?thesis by (simp add: in_range_def)
  qed
  have cs: "in_range 0xFFFFFFFF (Some (int (calculateChecksum d)))" for d
    using calculateChecksum_bound[of d] by (simp add: in_range_def)
  have "\<forall>f \<in> set (header_steps tn opts cg mi symtab strtab). step_ok f"
    using assms api cs
    by (simp add: header_steps_def Let_def js_length_def ok_rules in_range_def del: foldM.simps)
  then have "step_ok (run_steps (header_steps tn opts cg mi symtab strtab))"
    by (rule ok_run_steps)
  then show ?thesis by (simp add: write_header_steps step_ok_def)
qed

lemma compile_Inr:
  assumes "compile tn opts pr = Inr c"
  obtains p cg0 cg symtab h where
    "validateModule pr = Inr p" "generate p = Inr cg0"
    "(if opt_optimize opts then optimize cg0 else Inr cg0) = Inr cg"
    "buildSymbolTable cg = Inr symtab"
    "write_header tn opts cg (extractModuleInfo opts p) symtab (buildStrtab (cg_strings cg)) = Inr h"
    "binary c = h @ cg_code cg @ cg_data cg @ symtab @ buildStrtab (cg_strings cg)"
    "info c = extractModuleInfo opts p"
    "codeSize c = cg_codeSize cg" "dataSize c = cg_dataSize cg"
  using assms unfolding compile_def write_akm_def Let_def bind_Inr_iff by fastforce

lemma read_header:
  assumes "take 4 (drop ofs h) = le32 n \<and> n < 2 ^ 32 \<and> length h = 512" "ofs + 4 \<le> 512"
  shows "readUInt32LE (h @ rest) ofs = n"
  using assms by (intro readUInt32LE_slice) simp_all

lemma le32_magic: "le32 0x324D4B41 = [0x41, 0x4B, 0x4D, 0x32]"
  by (simp add: le32_def)

lemma put_append:
  "length xs = off \<Longrightarrow> length bs \<le> length ys \<Longrightarrow> put off bs (xs @ ys) = xs @ bs @ drop (length bs) ys"
  by (simp add: put_def)

lemma w32_append:
  assumes "n < 2 ^ 32" "length xs = off" "4 \<le> length ys"
  shows "writeUInt32LE (Some (int n)) off (xs @ ys) = Inr (xs @ le32 n @ drop 4 ys)"
  using assms by (simp add: writeUInt32LE_def put_append)

lemma symbol_entry_bytes:
  assumes "nameOff < 2 ^ 32" "off < 2 ^ 32"
  shows "symbol_entry nameOff off = Inr (le32 nameOff @ le32 off @ [0, 0, 1, 1])"
proof -
  have 1: "writeUInt32LE (Some (int nameOff)) 0 (replicate 12 0) = Inr (le32 nameOff @ replicate 8 0)"
    using w32_append[OF assms(1), of "[]" 0 "replicate 12 0"] by simp
  have 2: "writeUInt32LE (Some (int off)) 4 (le32 nameOff @ replicate 8 0)
             = Inr (le32 nameOff @ le32 off @ replicate 4 0)"
    using w32_append[OF assms(2), of "le32 nameOff" 4 "replicate 8 0"] by simp
  have r4: "replicate 4 (0 :: byte) = [0, 0, 0, 0]" by (simp add: numeral_eq_Suc)
  have 3: "writeUInt16LE (Some 0) 8 (le32 nameOff @ le32 off @ [0, 0, 0, 0])
             = Inr (le32 nameOff @ le32 off @ [0, 0, 0, 0])"
    using put_append[of "le32 nameOff @ le32 off" 8 "[0, 0]" "[0, 0, 0, 0]"]
    by (simp add: writeUInt16LE_def le16_def)
  have 4: "writeUInt8 (Some 1) 10 (le32 nameOff @ le32 off @ [0, 0, 0, 0])
             = Inr (le32 nameOff @ le32 off @ [0, 0, 1, 0])"
    using put_append[of "le32 nameOff @ le32 off @ [0, 0]" 10 "[1]" "[0, 0]"]
    by (simp add: writeUInt8_def)
  have 5: "writeUInt8 (Some 1) 11 (le32 nameOff @ le32 off @ [0, 0, 1, 0])
             = Inr (le32 nameOff @ le32 off @ [0, 0, 1, 1])"
    using put_append[of "le32 nameOff @ le32 off @ [0, 0, 1]" 11 "[1]" "[0]"]
    by (simp add: writeUInt8_def)
  show ?thesis
    unfolding symbol_entry_def by (simp only: 1 2 r4 3 4 5 bind_Inr)
qed

section \<open>Evaluating the minimal module\<close>

lemma validate_minimal: "validateModule (Parsed minimal_parsed) = Inr minimal_parsed"
  by (simp add: validateModule_def minimal_parsed_def)

lemma symtab_minimal:
  "symbol_entries 0 [(js ''init'', 0), (js ''exit'', 7)] = Inr minimal_symtab"
  by (simp add: symbol_entry_bytes le32_def js_simps minimal_symtab_def)

lemma strtab_minimal: "buildStrtab [js ''init'', js ''exit''] = minimal_strings"
  by (simp add: buildStrtab_def cstring_def utf8_def utf8_1_def js_simps minimal_strings_def)

lemma info_minimal:
  "extractModuleInfo default_options minimal_parsed =
     \<lparr>mi_name = JStr (js ''a''), mi_version = JStr (js ''1.0.0''), mi_author = JStr [],
      mi_description = JStr [], mi_license = JStr (js ''MIT''), mi_capabilities = JNum 2048,
      mi_apiVersion = 0x0200, mi_kernelMinVersion = 0x00080000, mi_kernelMaxVersion = 0,
      mi_dependencies = JArr [], mi_securityLevel = JNum 0\<rparr>"
  by (simp add: extractModuleInfo_def default_options_def minimal_parsed_def or_else_def)

lemma compile_minimal:
  "\<exists>h. length h = 512
     \<and> compile tn default_options (Parsed minimal_parsed)
         = Inr \<lparr>binary = h @ minimal_code @ minimal_strings @ minimal_symtab @ minimal_strings,
                info = extractModuleInfo default_options minimal_parsed,
                codeSize = 9, dataSize = 10\<rparr>"
proof -
  let ?cg = "\<lparr>cg_code = minimal_code, cg_data = minimal_strings,
          cg_strings = [js ''init'', js ''exit''],
          cg_functions = [(js ''init'', 0), (js ''exit'', 7)],
          cg_initOffset = 0, cg_exitOffset = 7, cg_codeSize = 9, cg_dataSize = 10\<rparr>"
  have g: "generate minimal_parsed = Inr ?cg"
    by (simp add: generate_minimal minimal_code_def minimal_strings_def)
  obtain h where h: "write_header tn default_options ?cg
      (extractModuleInfo default_options minimal_parsed) minimal_symtab minimal_strings = Inr h"
    and l: "length h = 512"
    using write_header_succeeds[of ?cg minimal_symtab minimal_strings
            "extractModuleInfo default_options minimal_parsed" "js ''a''" "js ''1.0.0''" "[]"
            tn default_options]
    by (auto simp: info_minimal or_else_def in_range_def minimal_code_def minimal_strings_def
          minimal_symtab_def)
  have s: "buildSymbolTable ?cg = Inr minimal_symtab"
    by (simp add: buildSymbolTable_def symtab_minimal del: symbol_entries.simps)
  have o: "opt_optimize default_options = False"
    by (simp add: default_options_def)
  have "compile tn default_options (Parsed minimal_parsed)
         = Inr \<lparr>binary = h @ minimal_code @ minimal_strings @ minimal_symtab @ minimal_strings,
                info = extractModuleInfo default_options minimal_parsed,
                codeSize = 9, dataSize = 10\<rparr>"
    by (simp add: compile_def validate_minimal g write_akm_def s strtab_minimal h o Let_def)
  with l show ?thesis by blast
qed

section \<open>The module returning a sum\<close>

lemma parse_fold: "parse tn (Some fold_source) = Inr (Parsed fold_parsed)"
  by (simp add: fold_source_def fold_parsed_def ast_defs parse_defs js_simps OP_defs
                CAP_defs evaluateLiteral.simps)

lemma generate_fold:
  "generate fold_parsed =
     Inr \<lparr>cg_code = minimal_code, cg_data = minimal_strings,
          cg_strings = [js ''init'', js ''exit''],
          cg_functions = [(js ''init'', 0), (js ''exit'', 7)],
          cg_initOffset = 0, cg_exitOffset = 7, cg_codeSize = 9, cg_dataSize = 10\<rparr>"
  by (simp add: fold_parsed_def codegen_defs js_simps OP_defs Let_def bind_def
        minimal_code_def minimal_strings_def)

section \<open>Compiling the small modules\<close>

lemma validate_fold: "validateModule (Parsed fold_parsed) = Inr fold_parsed"
  by (simp add: validateModule_def fold_parsed_def)

lemma info_fold: "extractModuleInfo default_options fold_parsed = minimal_info"
  by (simp add: extractModuleInfo_def default_options_def fold_parsed_def or_else_def
        minimal_info_def)

lemma compile_small:
  assumes v: "validateModule (Parsed p) = Inr p"
    and g: "generate p = Inr minimal_cg"
    and i: "extractModuleInfo default_options p = minimal_info"
  shows "\<exists>h. write_header tn default_options minimal_cg minimal_info minimal_symtab
                minimal_strings = Inr h
           \<and> compile tn default_options (Parsed p)
               = Inr \<lparr>binary = h @ minimal_code @ minimal_strings @ minimal_symtab @ minimal_strings,
                      info = minimal_info, codeSize = 9, dataSize = 10\<rparr>"
proof -
  obtain h where h: "write_header tn default_options minimal_cg minimal_info minimal_symtab
      minimal_strings = Inr h"
    using write_header_succeeds[of minimal_cg minimal_symtab minimal_strings
            minimal_info "js ''a''" "js ''1.0.0''" "[]" tn default_options]
    by (auto simp: minimal_info_def minimal_cg_def or_else_def in_range_def minimal_code_def
          minimal_strings_def minimal_symtab_def)
  have s: "buildSymbolTable minimal_cg = Inr minimal_symtab"
    by (simp add: buildSymbolTable_def minimal_cg_def symtab_minimal del: symbol_entries.simps)
  have o: "opt_optimize default_options = False"
    by (simp add: default_options_def)
  have c: "cg_code minimal_cg = minimal_code" "cg_data minimal_cg = minimal_strings"
    "cg_strings minimal_cg = [js ''init'', js ''exit'']" "cg_codeSize minimal_cg = 9"
    "cg_dataSize minimal_cg = 10"
    by (simp_all add: minimal_cg_def)
  have "compile tn default_options (Parsed p)
         = Inr \<lparr>binary = h @ minimal_code @ minimal_strings @ minimal_symtab @ minimal_strings,
                info = minimal_info, codeSize = 9, dataSize = 10\<rparr>"
    by (simp add: compile_def v g i write_akm_def s strtab_minimal h o c Let_def)
  with h show ?thesis by blast
qed

lemma small_header:
  assumes "write_header tn default_options minimal_cg minimal_info minimal_symtab
                minimal_strings = Inr h"
  shows "length h = 512" "take 4 h = [0x41, 0x4B, 0x4D, 0x32]"
    "readUInt32LE (h @ rest) 108 = 0x800"
    "readUInt32LE (h @ rest) 128 = 10" "readUInt32LE (h @ rest) 192 = 10"
proof -
  show "length h = 512" using header_magic[OF assms] by simp
  show "take 4 h = [0x41, 0x4B, 0x4D, 0x32]"
    using header_magic[OF assms] by (simp add: le32_magic)
  have "take 4 (drop 108 h) = le32 (nat 2048) \<and> nat 2048 < 2 ^ 32 \<and> length h = 512"
    using header_capabilities[OF assms, of 2048] by (simp add: minimal_info_def)
  then show "readUInt32LE (h @ rest) 108 = 0x800"
    using read_header[of 108 h "nat 2048" rest] by simp
  show "readUInt32LE (h @ rest) 128 = 10"
    using read_header[OF header_data_size[OF assms], of rest]
    by (simp add: minimal_cg_def minimal_strings_def)
  show "readUInt32LE (h @ rest) 192 = 10"
    using read_header[OF header_strtab_size[OF assms], of rest]
    by (simp add: minimal_strings_def)
qed

lemma generate_minimal_cg: "generate minimal_parsed = Inr minimal_cg"
  by (simp add: generate_minimal minimal_cg_def minimal_code_def minimal_strings_def)

lemma info_minimal_info: "extractModuleInfo default_options minimal_parsed = minimal_info"
  by (simp add: info_minimal minimal_info_def)

lemma generate_fold_cg: "generate fold_parsed = Inr minimal_cg"
  by (simp add: generate_fold minimal_cg_def)

lemma code_bytes:
  "minimal_code = map word_of_int [OP_NOP, OP_PUSH, 0, 0, 0, 0, OP_RET, OP_NOP, OP_RET]"
  by (simp add: minimal_code_def OP_defs)

lemma strings_bytes: "minimal_strings = cstring (js ''init'') @ cstring (js ''exit'')"
  by (simp add: minimal_strings_def cstring_def utf8_def utf8_1_def js_simps)

lemma parse_caps: "parse tn (Some caps_source) = Inr (Parsed minimal_parsed)"
  by (simp add: caps_source_def caps_expression_def minimal_parsed_def ast_defs parse_defs
                js_simps OP_defs CAP_defs evaluateLiteral.simps)

section \<open>Offsets of the generated functions\<close>

lemma foldl_invariant:
  assumes "P s" "\<And>s x. P s \<Longrightarrow> P (f s x)"
  shows "P (foldl f s xs)"
  using assms(1) by (induction xs arbitrary: s) (simp_all add: assms(2))

lemma grows_refl: "cs_ok cs \<Longrightarrow> grows cs cs"
  by (simp add: grows_def)

lemma grows_trans: "grows a b \<Longrightarrow> grows b c \<Longrightarrow> grows a c"
  by (auto simp: grows_def)

lemma grows_emit: "grows cs0 cs \<Longrightarrow> grows cs0 (emit b cs)"
  by (auto simp: grows_def cs_ok_def emit_def)

lemma grows_emitInt32: "grows cs0 cs \<Longrightarrow> grows cs0 (emitInt32 v cs)"
  by (auto simp: grows_def cs_ok_def emitInt32_def int32_bytes_def Let_def)

lemma grows_emitValue: "grows cs0 cs \<Longrightarrow> grows cs0 (emitValue v t cs)"
  by (cases v) (simp_all add: emitValue_def grows_emitInt32)

lemma grows_addFixup: "grows cs0 cs \<Longrightarrow> grows cs0 (addFixup l cs)"
  by (auto simp: grows_def cs_ok_def addFixup_def)

lemmas grows_rules = grows_emit grows_emitInt32 grows_emitValue grows_addFixup

lemma grows_generateInstruction:
  "grows cs0 cs \<Longrightarrow> grows cs0 (generateInstruction i t f cs)"
  by (cases i) (auto simp: grows_rules split: option.splits)

lemma grows_generateFunction:
  assumes "cs_ok cs"
  shows "cs_ok (generateFunction f t cs)
       \<and> length (cs_code cs) < length (cs_code (generateFunction f t cs))"
proof -
  let ?cs1 = "emit OP_NOP (cs\<lparr>cs_labels := AList.update (fn_name f) (cs_currentOffset cs)
                                             (cs_labels cs)\<rparr>)"
  have 1: "cs_ok ?cs1" "length (cs_code ?cs1) = Suc (length (cs_code cs))"
    using assms by (simp_all add: cs_ok_def emit_def)
  have 2: "grows ?cs1 (foldl (\<lambda>cs local. emitInt32 (Some 0) (emit OP_PUSH cs)) ?cs1 (fn_locals f))"
    by (rule foldl_invariant[where P = "grows ?cs1"]) (simp_all add: grows_refl 1 grows_rules)
  have "grows ?cs1 (generateFunction f t cs)"
    unfolding generateFunction_def
    by (rule foldl_invariant[where P = "grows ?cs1"]) (simp_all add: 2 grows_generateInstruction)
  then show ?thesis using 1 by (simp add: grows_def)
qed

lemma values_update: "snd ` set (AList.update k v al) \<subseteq> insert v (snd ` set al)"
  by (induction al) auto

lemma offsets_ok_generateFunctions: "offsets_ok (generateFunctions funcs table)"
  unfolding generateFunctions_def
proof (rule foldl_invariant[where P = offsets_ok])
  show "offsets_ok ([], \<lparr>cs_code = [], cs_labels = [], cs_fixups = [], cs_currentOffset = 0\<rparr>)"
    by (simp add: offsets_ok_def cs_ok_def)
next
  fix st :: "(jsstring \<times> nat) list \<times> codegen" and func
  assume ok: "offsets_ok st"
  then have cs: "cs_ok (snd st)" by (simp add: offsets_ok_def)
  note g = grows_generateFunction[OF cs, of func table]
  have "off < length (cs_code (generateFunction func table (snd st)))"
    if "off \<in> snd ` set (AList.update (fn_name func) (cs_currentOffset (snd st)) (fst st))" for off
  proof -
    from that values_update[of "fn_name func" "cs_currentOffset (snd st)" "fst st"]
    have "off = cs_currentOffset (snd st) \<or> off \<in> snd ` set (fst st)"
      by blast
    moreover have "cs_currentOffset (snd st) < length (cs_code (generateFunction func table (snd st)))"
      using g cs by (simp add: cs_ok_def)
    moreover have "off < length (cs_code (generateFunction func table (snd st)))"
      if "off \<in> snd ` set (fst st)"
    proof -
      have "off < length (cs_code (snd st))" using ok that by (auto simp: offsets_ok_def)
      then show ?thesis using g by simp
    qed
    ultimately show ?thesis by blast
  qed
  then show "offsets_ok (AList.update (fn_name func) (cs_currentOffset (snd st)) (fst st),
                         generateFunction func table (snd st))"
    unfolding offsets_ok_def fst_conv snd_conv using g by blast
qed

lemma length_resolveFixups: "length (cs_code (resolveFixups cs)) = length (cs_code cs)"
proof -
  have "length (cs_code (foldl (\<lambda>cs fixup.
              case label_target (cs_labels cs) (snd fixup) of
                Some target \<Rightarrow>
                  cs\<lparr>cs_code := (cs_code cs)
                        [fst fixup := int32_bytes (Some (int target)) ! 0,
                         fst fixup + 1 := int32_bytes (Some (int target)) ! 1,
                         fst fixup + 2 := int32_bytes (Some (int target)) ! 2,
                         fst fixup + 3 := int32_bytes (Some (int target)) ! 3]\<rparr>
              | None \<Rightarrow> cs) cs0 fixups)) = length (cs_code cs0)" for cs0 fixups
    by (induction fixups arbitrary: cs0) (simp_all split: option.splits)
  then show ?thesis by (simp add: resolveFixups_def)
qed

lemma generate_offsets:
  assumes "generate p = Inr cg"
  shows "\<forall>off \<in> snd ` set (cg_functions cg). off < length (cg_code cg)"
proof -
  let ?st = "generateFunctions (ir_functions (pr_ir p)) (buildStringTable (ir_strings (pr_ir p)))"
  from assms have "cg_functions cg = fst ?st" "cg_code cg = cs_code (resolveFixups (snd ?st))"
    by (auto simp: generate_def Let_def bind_Inr_iff)
  then show ?thesis
    using offsets_ok_generateFunctions[of "ir_functions (pr_ir p)" "buildStringTable (ir_strings (pr_ir p))"]
    by (simp add: offsets_ok_def length_resolveFixups)
qed

lemma symbol_entry_Inr:
  assumes "symbol_entry nameOff off = Inr e"
  shows "off < 2 ^ 32 \<and> e = le32 nameOff @ le32 off @ [0, 0, 1, 1]"
proof -
  have n: "nameOff < 2 ^ 32"
  proof (rule ccontr)
    assume "\<not> nameOff < 2 ^ 32"
    then have "writeUInt32LE (Some (int nameOff)) 0 (replicate 12 0) = Inl RangeError"
      by (simp add: writeUInt32LE_def)
    then show False using assms by (simp add: symbol_entry_def)
  qed
  have o: "off < 2 ^ 32"
  proof (rule ccontr)
    assume "\<not> off < 2 ^ 32"
    then have "writeUInt32LE (Some (int off)) 4 b = Inl RangeError" for b
      by (simp add: writeUInt32LE_def)
    then show False using assms by (auto simp: symbol_entry_def bind_Inr_iff)
  qed
  show ?thesis using symbol_entry_bytes[OF n o] assms o by simp
qed

lemma symbol_entries_Inr:
  assumes "symbol_entries nameOff fs = Inr st"
  shows "length st = 12 * length fs
       \<and> (\<forall>i < length fs. take 4 (drop (12 * i + 4) st) = le32 (snd (fs ! i))
                          \<and> snd (fs ! i) < 2 ^ 32)"
  using assms
proof (induction fs arbitrary: nameOff st)
  case Nil
  then show ?case by simp
next
  case (Cons f fs)
  obtain name off where f: "f = (name, off)" by (cases f)
  from Cons.prems obtain e rest where e: "symbol_entry nameOff off = Inr e"
    and rest: "symbol_entries (nameOff + length name + 1) fs = Inr rest"
    and st: "st = e @ rest"
    by (auto simp: f bind_Inr_iff)
  note ih = Cons.IH[OF rest]
  from symbol_entry_Inr[OF e] have o: "off < 2 ^ 32"
    and e': "e = le32 nameOff @ le32 off @ [0, 0, 1, 1]" by simp_all
  have le: "length e = 12" by (simp add: e')
  have "take 4 (drop (12 * i + 4) st) = le32 (snd ((f # fs) ! i)) \<and> snd ((f # fs) ! i) < 2 ^ 32"
    if "i < length (f # fs)" for i
  proof (cases i)
    case 0
    then show ?thesis using o by (simp add: st e' f)
  next
    case (Suc j)
    then have j: "j < length fs" using that by simp
    have a: "12 * i + 4 = (12 * j + 4) + 12" by (simp add: Suc)
    have b: "drop 12 (e @ rest) = rest" using le by simp
    have "drop (12 * i + 4) st = drop (12 * j + 4) rest"
      unfolding st a drop_drop[symmetric] b ..
    then show ?thesis using ih j by (simp add: Suc)
  qed
  then show ?case using ih le by (simp add: st)
qed

lemma read_section:
  assumes "length pre = a" "k + 4 \<le> length sec" "take 4 (drop k sec) = le32 n" "n < 2 ^ 32"
  shows "readUInt32LE (pre @ sec @ post) (a + k) = n"
proof (rule readUInt32LE_slice)
  show "a + k + 4 \<le> length (pre @ sec @ post)" using assms by simp
  have "drop (a + k) (pre @ sec @ post) = drop k sec @ post"
    using assms(1,2) by simp
  then show "take 4 (drop (a + k) (pre @ sec @ post)) = le32 n"
    using assms(2,3) by simp
  show "n < 2 ^ 32" by (rule assms(4))
qed

lemma optimize_Inr:
  assumes "(if opt_optimize opts then optimize cg0 else Inr cg0) = Inr cg"
  shows "cg_functions cg = cg_functions cg0 \<and> cg_code cg = cg_code cg0"
  using assms by (auto simp: optimize_def split: if_splits)

lemma small_sections:
  assumes "write_header tn default_options minimal_cg minimal_info minimal_symtab
                minimal_strings = Inr h"
  shows "readUInt32LE (h @ rest) 116 = 512" "readUInt32LE (h @ rest) 120 = 9"
    "readUInt32LE (h @ rest) 180 = 531" "readUInt32LE (h @ rest) 184 = 24"
proof -
  show "readUInt32LE (h @ rest) 116 = 512"
    using read_header[OF header_code_offset[OF assms], of rest] by simp
  show "readUInt32LE (h @ rest) 120 = 9"
    using read_header[OF header_code_size[OF assms], of rest]
    by (simp add: minimal_cg_def minimal_code_def)
  show "readUInt32LE (h @ rest) 180 = 531"
    using read_header[OF header_symtab_offset[OF assms], of rest]
    by (simp add: minimal_cg_def minimal_code_def minimal_strings_def)
  show "readUInt32LE (h @ rest) 184 = 24"
    using read_header[OF header_symtab_size[OF assms], of rest]
    by (simp add: minimal_symtab_def)
qed

lemma small_symbols:
  assumes "length h = 512"
  shows "readUInt32LE (h @ minimal_code @ minimal_strings @ minimal_symtab @ rest) 535 = 0"
    "readUInt32LE (h @ minimal_code @ minimal_strings @ minimal_symtab @ rest) 547 = 7"
proof -
  have l: "length (h @ minimal_code @ minimal_strings) = 531"
    using assms by (simp add: minimal_code_def minimal_strings_def)
  have a: "take 4 (drop 4 minimal_symtab) = le32 0" "take 4 (drop 16 minimal_symtab) = le32 7"
    by (simp_all add: minimal_symtab_def le32_def)
  have "readUInt32LE ((h @ minimal_code @ minimal_strings) @ minimal_symtab @ rest) (531 + 4) = 0"
    by (rule read_section[OF l _ a(1)]) (simp_all add: minimal_symtab_def)
  then show "readUInt32LE (h @ minimal_code @ minimal_strings @ minimal_symtab @ rest) 535 = 0"
    by simp
  have "readUInt32LE ((h @ minimal_code @ minimal_strings) @ minimal_symtab @ rest) (531 + 16) = 7"
    by (rule read_section[OF l _ a(2)]) (simp_all add: minimal_symtab_def)
  then show "readUInt32LE (h @ minimal_code @ minimal_strings @ minimal_symtab @ rest) 547 = 7"
    by simp
qed

section \<open>The capability mask\<close>































section \<open>The inspector rejects short files and wrong magics\<close>











section \<open>Command registrations are injected in reverse order\<close>










section \<open>A module without name, \<open>init\<close> or \<open>exit\<close> is rejected\<close>

lemma extractModuleConfig_none:
  assumes "\<forall>n \<in> set (walkAST ast). \<not> (akm_call n \<and> callee_method n = JStr (js ''module''))"
  shows "extractModuleConfig tn ast = Inr []"
  unfolding extractModuleConfig_def using assms by (intro foldM_unchanged) auto

lemma name_neq_capabilities: "js ''name'' \<noteq> js ''capabilities''"
  by (simp add: js_def)

lemma parse_config_name:
  assumes "parse tn (Some ast) = Inr (Parsed p)" "extractModuleConfig tn ast = Inr config"
  shows "getp (js ''name'') (JObj (pr_moduleConfig p)) = getp (js ''name'') (JObj config)"
  using assms
  by (auto simp: parse_def bind_Inr_iff Let_def update_conv' name_neq_capabilities
           split: if_splits)

lemma parse_Some_Parsed: "parse tn (Some ast) = Inr pr \<Longrightarrow> \<exists>p. pr = Parsed p"
  by (auto simp: parse_def bind_Inr_iff Let_def)

text \<open>
  Claim C8. Compilation stops in \<open>validateModule\<close> with one of its errors, before any
  code is generated or binary written, whenever the parse result holds no configuration,
  or the configuration has no (truthy) name, or no function \<open>init\<close> or no function
  \<open>exit\<close> was extracted. A source without any \<open>AKM.module\<close> call parses to a
  configuration without name and is rejected with ``Module must have a name''.
\<close>

theorem compile_rejects_incomplete_module:
  "((parseResult = ParseErrors
      \<or> (\<exists>p. parseResult = Parsed p
             \<and> (\<not> truthy (getp (js ''name'') (JObj (pr_moduleConfig p)))
                \<or> map_of (pr_functions p) (js ''init'') = None
                \<or> map_of (pr_functions p) (js ''exit'') = None)))
     \<longrightarrow> (\<exists>msg. compile tn opts parseResult = Inl (Error msg)))
   \<and> ((\<forall>n \<in> set (walkAST ast). \<not> (akm_call n \<and> callee_method n = JStr (js ''module'')))
        \<and> parse tn (Some ast) = Inr parseResult
     \<longrightarrow> compile tn opts parseResult = Inl (Error ''Module must have a name''))"
proof (intro conjI impI)
  assume "parseResult = ParseErrors
      \<or> (\<exists>p. parseResult = Parsed p
             \<and> (\<not> truthy (getp (js ''name'') (JObj (pr_moduleConfig p)))
                \<or> map_of (pr_functions p) (js ''init'') = None
                \<or> map_of (pr_functions p) (js ''exit'') = None))"
  then have "\<exists>msg. validateModule parseResult = Inl (Error msg)"
    by (auto simp: validateModule_def)
  then show "\<exists>msg. compile tn opts parseResult = Inl (Error msg)"
    by (auto simp: compile_def)
next
  assume a: "(\<forall>n \<in> set (walkAST ast). \<not> (akm_call n \<and> callee_method n = JStr (js ''module'')))
        \<and> parse tn (Some ast) = Inr parseResult"
  then obtain p where p: "parseResult = Parsed p" using parse_Some_Parsed by blast
  have "extractModuleConfig tn ast = Inr []" using a extractModuleConfig_none by blast
  with a p have "getp (js ''name'') (JObj (pr_moduleConfig p)) = JUndef"
    using parse_config_name[of tn ast p "[]"] by simp
  then have "validateModule parseResult = Inl (Error ''Module must have a name'')"
    by (simp add: validateModule_def p)
  then show "compile tn opts parseResult = Inl (Error ''Module must have a name'')"
    by (simp add: compile_def)
qed

lemma parse_empty: "parse tn (Some (Program [])) = Inr (Parsed empty_parsed)"
  by (simp add: empty_parsed_def ast_defs parse_defs js_simps OP_defs CAP_defs
                evaluateLiteral.simps)

lemma walk_empty:
  "\<forall>n \<in> set (walkAST (Program [])). \<not> (akm_call n \<and> callee_method n = JStr (js ''module''))"
  by (simp add: ast_defs parse_defs js_simps)

theorem compile_rejects_incomplete_module_witness:
  "parse no_number (Some (Program [])) = Inr (Parsed empty_parsed)
   \<and> map_of (pr_functions empty_parsed) (js ''init'') = None
   \<and> compile no_number default_options (Parsed empty_parsed)
       = Inl (Error ''Module must have a name'')"
  using compile_rejects_incomplete_module[of "Parsed empty_parsed" no_number default_options
          "Program []"] parse_empty[of no_number] walk_empty
  by (simp add: empty_parsed_def)

section \<open>The size and the magic of the artifact\<close>

text \<open>
  Claim C1. For every compilation that succeeds, the length of the artifact is the
  32-bit number at offset 12 of its header (\<open>total_size\<close>); that number is 512 plus the
  numbers at offsets 120, 128, 184 and 192 (\<open>code_size\<close>, \<open>data_size\<close>, \<open>symtab_size\<close>,
  \<open>strtab_size\<close>); and the first four bytes are \<open>41 4B 4D 32\<close>, the little-endian magic
  \<open>0x324D4B41\<close>.
\<close>

theorem artifact_total_size:
  assumes "compile tn opts parseResult = Inr c"
  shows "length (binary c) = readUInt32LE (binary c) 12
       \<and> readUInt32LE (binary c) 12
           = 512 + readUInt32LE (binary c) 120 + readUInt32LE (binary c) 128
               + readUInt32LE (binary c) 184 + readUInt32LE (binary c) 192
       \<and> take 4 (binary c) = [0x41, 0x4B, 0x4D, 0x32]
       \<and> readUInt32LE (binary c) 0 = 0x324D4B41"
proof -
  from assms obtain p cg0 cg symtab h where
    h: "write_header tn opts cg (extractModuleInfo opts p) symtab (buildStrtab (cg_strings cg)) = Inr h"
    and b: "binary c = h @ cg_code cg @ cg_data cg @ symtab @ buildStrtab (cg_strings cg)"
    by (rule compile_Inr)
  let ?rest = "cg_code cg @ cg_data cg @ symtab @ buildStrtab (cg_strings cg)"
  have l: "length h = 512" using header_magic[OF h] by simp
  have total: "readUInt32LE (h @ ?rest) 12 = 512 + length (cg_code cg) + length (cg_data cg)
                 + length symtab + length (buildStrtab (cg_strings cg))"
    by (rule read_header[OF header_total_size[OF h]]) simp
  have code: "readUInt32LE (h @ ?rest) 120 = length (cg_code cg)"
    by (rule read_header[OF header_code_size[OF h]]) simp
  have data: "readUInt32LE (h @ ?rest) 128 = length (cg_data cg)"
    by (rule read_header[OF header_data_size[OF h]]) simp
  have sym: "readUInt32LE (h @ ?rest) 184 = length symtab"
    by (rule read_header[OF header_symtab_size[OF h]]) simp
  have str: "readUInt32LE (h @ ?rest) 192 = length (buildStrtab (cg_strings cg))"
    by (rule read_header[OF header_strtab_size[OF h]]) simp
  have magic: "readUInt32LE (h @ ?rest) 0 = 0x324D4B41"
    by (rule read_header[OF header_magic[OF h]]) simp
  have first: "take 4 (h @ ?rest) = [0x41, 0x4B, 0x4D, 0x32]"
    using header_magic[OF h] by (simp add: le32_magic)
  show ?thesis
    unfolding b total code data sym str magic first using l by simp
qed

theorem artifact_total_size_witness:
  "\<exists>c. compile no_number default_options (Parsed minimal_parsed) = Inr c
      \<and> length (binary c) = 565 \<and> readUInt32LE (binary c) 12 = 565
      \<and> take 4 (binary c) = [0x41, 0x4B, 0x4D, 0x32]"
proof -
  obtain h where l: "length h = 512"
    and c: "compile no_number default_options (Parsed minimal_parsed)
         = Inr \<lparr>binary = h @ minimal_code @ minimal_strings @ minimal_symtab @ minimal_strings,
                info = extractModuleInfo default_options minimal_parsed,
                codeSize = 9, dataSize = 10\<rparr>"
    using compile_minimal[of no_number] by blast
  from artifact_total_size[OF c] l show ?thesis
    unfolding c by (simp add: minimal_code_def minimal_strings_def minimal_symtab_def)
qed

section \<open>The two checksums of the header\<close>

text \<open>
  Claim C2. For every compilation that succeeds, the artifact is a 512-byte header
  followed by the code, the data, the symbol table and the string table (of the sizes the
  header declares); the 32-bit number at offset 352 of the header is the rolling hash of
  code, data, symbol table and string table concatenated; and the number at offset 348
  is the rolling hash of the final header, content checksum included, without its bytes
  348 to 351.
\<close>

theorem artifact_checksums:
  assumes "compile tn opts parseResult = Inr c"
  shows "\<exists>h code data symtab strtab.
           binary c = h @ code @ data @ symtab @ strtab
         \<and> length h = 512
         \<and> length code = readUInt32LE (binary c) 120
         \<and> length data = readUInt32LE (binary c) 128
         \<and> length symtab = readUInt32LE (binary c) 184
         \<and> length strtab = readUInt32LE (binary c) 192
         \<and> readUInt32LE (binary c) 352 = unat (rolling_hash (code @ data @ symtab @ strtab))
         \<and> readUInt32LE (binary c) 348 = unat (rolling_hash (take 348 h @ drop 352 h))"
proof -
  from assms obtain p cg0 cg symtab h where
    h: "write_header tn opts cg (extractModuleInfo opts p) symtab (buildStrtab (cg_strings cg)) = Inr h"
    and b: "binary c = h @ cg_code cg @ cg_data cg @ symtab @ buildStrtab (cg_strings cg)"
    by (rule compile_Inr)
  let ?strtab = "buildStrtab (cg_strings cg)"
  let ?rest = "cg_code cg @ cg_data cg @ symtab @ ?strtab"
  have l: "length h = 512" using header_magic[OF h] by simp
  have code: "readUInt32LE (h @ ?rest) 120 = length (cg_code cg)"
    by (rule read_header[OF header_code_size[OF h]]) simp
  have data: "readUInt32LE (h @ ?rest) 128 = length (cg_data cg)"
    by (rule read_header[OF header_data_size[OF h]]) simp
  have sym: "readUInt32LE (h @ ?rest) 184 = length symtab"
    by (rule read_header[OF header_symtab_size[OF h]]) simp
  have str: "readUInt32LE (h @ ?rest) 192 = length ?strtab"
    by (rule read_header[OF header_strtab_size[OF h]]) simp
  have content: "readUInt32LE (h @ ?rest) 352 = calculateChecksum ?rest"
    using header_checksums[OF h] calculateChecksum_bound[of ?rest]
    by (intro read_header) simp_all
  have header: "readUInt32LE (h @ ?rest) 348 = calculateChecksum (take 348 h @ drop 352 h)"
    using header_checksums[OF h] calculateChecksum_bound[of "take 348 h @ drop 352 h"]
    by (intro read_header) simp_all
  show ?thesis
    unfolding b
    by (intro exI[of _ h] exI[of _ "cg_code cg"] exI[of _ "cg_data cg"] exI[of _ symtab]
          exI[of _ ?strtab])
       (simp only: code data sym str content header l calculateChecksum_rolling_hash simp_thms)
qed

lemma hash_minimal:
  "rolling_hash (minimal_code @ minimal_strings @ minimal_symtab @ minimal_strings) = 0x03316518"
  by (simp add: rolling_hash_def rotl1 minimal_code_def minimal_strings_def minimal_symtab_def)

theorem artifact_checksums_witness:
  "\<exists>c. compile no_number default_options (Parsed minimal_parsed) = Inr c
      \<and> readUInt32LE (binary c) 352 = 0x03316518
      \<and> readUInt32LE (binary c) 348
          = unat (rolling_hash (take 348 (binary c) @ take 160 (drop 352 (binary c))))"
proof -
  obtain h0 where l0: "length h0 = 512"
    and c: "compile no_number default_options (Parsed minimal_parsed)
         = Inr \<lparr>binary = h0 @ minimal_code @ minimal_strings @ minimal_symtab @ minimal_strings,
                info = extractModuleInfo default_options minimal_parsed,
                codeSize = 9, dataSize = 10\<rparr>"
    using compile_minimal[of no_number] by blast
  let ?c = "\<lparr>binary = h0 @ minimal_code @ minimal_strings @ minimal_symtab @ minimal_strings,
                info = extractModuleInfo default_options minimal_parsed,
                codeSize = 9, dataSize = 10\<rparr>"
  let ?rest = "minimal_code @ minimal_strings @ minimal_symtab @ minimal_strings"
  from artifact_checksums[OF c] obtain h code data symtab strtab where
    b: "binary ?c = h @ code @ data @ symtab @ strtab" and l: "length h = 512"
    and content: "readUInt32LE (binary ?c) 352 = unat (rolling_hash (code @ data @ symtab @ strtab))"
    and header: "readUInt32LE (binary ?c) 348 = unat (rolling_hash (take 348 h @ drop 352 h))"
    by blast
  have "h0 @ ?rest = h @ code @ data @ symtab @ strtab" using b by simp
  then have eq: "h = h0" "code @ data @ symtab @ strtab = ?rest"
    using l l0 by simp_all
  have bc: "binary ?c = h0 @ ?rest" by simp
  have t: "take 348 (h0 @ ?rest) = take 348 h0" using l0 by simp
  have d: "take 160 (drop 352 (h0 @ ?rest)) = drop 352 h0" using l0 by simp
  have 1: "readUInt32LE (binary ?c) 352 = 0x03316518"
    using content unfolding eq by (simp only: hash_minimal) simp
  have 2: "readUInt32LE (binary ?c) 348
          = unat (rolling_hash (take 348 (binary ?c) @ take 160 (drop 352 (binary ?c))))"
    using header unfolding eq bc t d .
  show ?thesis using c 1 2 by blast
qed

section \<open>The artifact of the minimal module\<close>

text \<open>
  Claim C3, as the specification words it, does not hold: the data section of the
  minimal module is not empty, and its string table does not hold the module name. The
  header of the compiled minimal module declares a data section of 10 bytes and a
  string table of 10 bytes, and the bytes after the symbol table are \<open>init\<close> and \<open>exit\<close>,
  each followed by NUL: there is no room for \<open>a\<close> and its NUL.
\<close>

theorem minimal_module_data_not_empty:
  "\<exists>c. compile_source no_number default_options (Some minimal_source) = Inr c
      \<and> readUInt32LE (binary c) 128 = 10
      \<and> take 10 (drop 521 (binary c)) = cstring (js ''init'') @ cstring (js ''exit'')
      \<and> readUInt32LE (binary c) 192 = 10
      \<and> drop 555 (binary c) = cstring (js ''init'') @ cstring (js ''exit'')"
proof -
  obtain h where h: "write_header no_number default_options minimal_cg minimal_info
        minimal_symtab minimal_strings = Inr h"
    and c: "compile no_number default_options (Parsed minimal_parsed)
               = Inr \<lparr>binary = h @ minimal_code @ minimal_strings @ minimal_symtab @ minimal_strings,
                      info = minimal_info, codeSize = 9, dataSize = 10\<rparr>"
    using compile_small[OF validate_minimal generate_minimal_cg info_minimal_info, of no_number]
    by blast
  have l: "length h = 512" "length minimal_code = 9" "length minimal_strings = 10"
    "length minimal_symtab = 24"
    using small_header(1)[OF h]
    by (simp_all add: minimal_code_def minimal_strings_def minimal_symtab_def)
  have "compile_source no_number default_options (Some minimal_source)
          = Inr \<lparr>binary = h @ minimal_code @ minimal_strings @ minimal_symtab @ minimal_strings,
                 info = minimal_info, codeSize = 9, dataSize = 10\<rparr>"
    by (simp add: compile_source_def parse_minimal c)
  moreover have "take 10 (drop 521 (h @ minimal_code @ minimal_strings @ minimal_symtab @ minimal_strings))
      = minimal_strings" using l by simp
  moreover have "drop 555 (h @ minimal_code @ minimal_strings @ minimal_symtab @ minimal_strings)
      = minimal_strings" using l by simp
  ultimately show ?thesis
    using small_header(4,5)[OF h] by (simp add: strings_bytes)
qed

text \<open>
  Claim C3, amended. For every behaviour of the number conversion, compiling the minimal
  module succeeds, and the artifact is: a header of 512 bytes that starts with the magic
  \<open>0x324D4B41\<close> and holds the capabilities \<open>0x800\<close> (\<open>LOG\<close>) at offset 108; the 9 bytes
  of code \<open>NOP\<close>, \<open>PUSH 0\<close>, \<open>RET\<close> (\<open>init\<close>), \<open>NOP\<close>, \<open>RET\<close> (\<open>exit\<close>); a data section
  of 10 bytes, the strings \<open>init\<close> and \<open>exit\<close> each followed by NUL; a symbol table of
  24 bytes; and a string table that holds the same two strings, and not the name of the
  module.
\<close>

theorem minimal_module_artifact:
  "\<exists>c h. compile_source tn default_options (Some minimal_source) = Inr c
      \<and> binary c = h @ map word_of_int [OP_NOP, OP_PUSH, 0, 0, 0, 0, OP_RET, OP_NOP, OP_RET]
                     @ (cstring (js ''init'') @ cstring (js ''exit''))
                     @ minimal_symtab
                     @ (cstring (js ''init'') @ cstring (js ''exit''))
      \<and> length h = 512
      \<and> take 4 h = [0x41, 0x4B, 0x4D, 0x32]
      \<and> int (readUInt32LE h 108) = CAP_LOG
      \<and> length minimal_symtab = 24
      \<and> codeSize c = 9 \<and> dataSize c = 10"
proof -
  obtain h where h: "write_header tn default_options minimal_cg minimal_info
        minimal_symtab minimal_strings = Inr h"
    and c: "compile tn default_options (Parsed minimal_parsed)
               = Inr \<lparr>binary = h @ minimal_code @ minimal_strings @ minimal_symtab @ minimal_strings,
                      info = minimal_info, codeSize = 9, dataSize = 10\<rparr>"
    using compile_small[OF validate_minimal generate_minimal_cg info_minimal_info, of tn]
    by blast
  have cs: "compile_source tn default_options (Some minimal_source)
          = Inr \<lparr>binary = h @ minimal_code @ minimal_strings @ minimal_symtab @ minimal_strings,
                 info = minimal_info, codeSize = 9, dataSize = 10\<rparr>"
    by (simp add: compile_source_def parse_minimal c)
  have caps: "readUInt32LE h 108 = 0x800"
    using small_header(3)[OF h, of "[]"] by simp
  show ?thesis
    unfolding cs code_bytes[symmetric] strings_bytes[symmetric]
    using small_header(1,2)[OF h] caps
    by (intro exI[of _ "\<lparr>binary = h @ minimal_code @ minimal_strings @ minimal_symtab @ minimal_strings,
                 info = minimal_info, codeSize = 9, dataSize = 10\<rparr>"] exI[of _ h])
       (simp add: minimal_symtab_def CAP_defs)
qed

section \<open>A sum of capability bits in the configuration\<close>

text \<open>
  Claim C5 does not hold of the code: the evaluator has no case for a binary expression,
  so every node of type \<open>BinaryExpression\<close>, a bitwise OR of \<open>AKM.CAPS\<close> members
  included, evaluates to \<open>null\<close>.
\<close>

theorem binary_expression_evaluates_to_null:
  assumes "has_type ''BinaryExpression'' node"
  shows "evaluateLiteral tn node = JNull"
  using assms by (simp add: evaluateLiteral.simps has_type_def)

text \<open>
  On the module that declares \<open>capabilities: AKM.CAPS.LOG | AKM.CAPS.MEMORY\<close>: the
  expression evaluates to \<open>null\<close>, and the header holds \<open>0x800\<close>, the inferred \<open>LOG\<close>
  alone, where the OR of the two bits is \<open>0x840\<close>.
\<close>

theorem binary_expression_evaluates_to_null_witness:
  "has_type ''BinaryExpression'' caps_expression
   \<and> evaluateLiteral no_number caps_expression = JNull
   \<and> js_or (Some CAP_LOG) (Some CAP_MEMORY) = 0x840
   \<and> (\<exists>c. compile_source no_number default_options (Some caps_source) = Inr c
          \<and> readUInt32LE (binary c) 108 = 0x800)"
proof -
  have t: "has_type ''BinaryExpression'' caps_expression"
    by (simp add: caps_expression_def ast_defs has_type_def node_type_def)
  obtain h where h: "write_header no_number default_options minimal_cg minimal_info
        minimal_symtab minimal_strings = Inr h"
    and c: "compile no_number default_options (Parsed minimal_parsed)
               = Inr \<lparr>binary = h @ minimal_code @ minimal_strings @ minimal_symtab @ minimal_strings,
                      info = minimal_info, codeSize = 9, dataSize = 10\<rparr>"
    using compile_small[OF validate_minimal generate_minimal_cg info_minimal_info, of no_number]
    by blast
  have "compile_source no_number default_options (Some caps_source)
          = Inr \<lparr>binary = h @ minimal_code @ minimal_strings @ minimal_symtab @ minimal_strings,
                 info = minimal_info, codeSize = 9, dataSize = 10\<rparr>"
    by (simp add: compile_source_def parse_caps c)
  moreover have "js_or (Some CAP_LOG) (Some CAP_MEMORY) = 0x840"
    by (simp add: js_or_def to_int32_def CAP_defs)
  ultimately show ?thesis
    using binary_expression_evaluates_to_null[OF t, of no_number] t small_header(3)[OF h]
    by simp
qed

section \<open>A function that returns a sum\<close>

text \<open>
  Claim C6, as the specification words it, does not hold. Without optimization the code
  of the module whose \<open>init\<close> is \<open>return 2 + 3\<close> holds one \<open>PUSH\<close> and no \<open>ADD\<close>; with
  optimization the compilation raises \<open>TypeError\<close> and emits nothing.
\<close>

theorem sum_is_not_lowered:
  "(\<exists>c. compile_source no_number default_options (Some fold_source) = Inr c
       \<and> codeSize c = 9
       \<and> word_of_int OP_ADD \<notin> set (take 9 (drop 512 (binary c)))
       \<and> length (filter (\<lambda>b. b = word_of_int OP_PUSH) (take 9 (drop 512 (binary c)))) = 1)
   \<and> compile_source no_number (default_options\<lparr>opt_optimize := True\<rparr>) (Some fold_source)
       = Inl TypeError"
proof -
  obtain h where h: "write_header no_number default_options minimal_cg minimal_info
        minimal_symtab minimal_strings = Inr h"
    and c: "compile no_number default_options (Parsed fold_parsed)
               = Inr \<lparr>binary = h @ minimal_code @ minimal_strings @ minimal_symtab @ minimal_strings,
                      info = minimal_info, codeSize = 9, dataSize = 10\<rparr>"
    using compile_small[OF validate_fold generate_fold_cg info_fold, of no_number]
    by blast
  have l: "length h = 512" "length minimal_code = 9"
    using small_header(1)[OF h] by (simp_all add: minimal_code_def)
  have cs: "compile_source no_number default_options (Some fold_source)
          = Inr \<lparr>binary = h @ minimal_code @ minimal_strings @ minimal_symtab @ minimal_strings,
                 info = minimal_info, codeSize = 9, dataSize = 10\<rparr>"
    by (simp add: compile_source_def parse_fold c)
  have code: "take 9 (drop 512 (h @ minimal_code @ minimal_strings @ minimal_symtab @ minimal_strings))
      = minimal_code" using l by simp
  have 1: "\<exists>c. compile_source no_number default_options (Some fold_source) = Inr c
       \<and> codeSize c = 9
       \<and> word_of_int OP_ADD \<notin> set (take 9 (drop 512 (binary c)))
       \<and> length (filter (\<lambda>b. b = word_of_int OP_PUSH) (take 9 (drop 512 (binary c)))) = 1"
  proof (intro exI conjI)
    let ?c = "\<lparr>binary = h @ minimal_code @ minimal_strings @ minimal_symtab @ minimal_strings,
                 info = minimal_info, codeSize = 9, dataSize = 10\<rparr>"
    have b: "take 9 (drop 512 (binary ?c)) = minimal_code" using code by simp
    show "compile_source no_number default_options (Some fold_source) = Inr ?c" by (rule cs)
    show "codeSize ?c = 9" by simp
    show "word_of_int OP_ADD \<notin> set (take 9 (drop 512 (binary ?c)))"
      unfolding b by (simp add: minimal_code_def OP_defs)
    show "length (filter (\<lambda>b. b = word_of_int OP_PUSH) (take 9 (drop 512 (binary ?c)))) = 1"
      unfolding b by (simp add: minimal_code_def OP_defs)
  qed
  have "optimize minimal_cg = Inl TypeError"
    by (simp add: optimize_def minimal_cg_def)
  then have 2: "compile_source no_number (default_options\<lparr>opt_optimize := True\<rparr>) (Some fold_source)
       = Inl TypeError"
    by (simp add: compile_source_def parse_fold compile_def validate_fold generate_fold_cg)
  from 1 2 show ?thesis by blast
qed

text \<open>
  Claim C6, amended to what the compiler does without optimization. The lowering has no
  case for a sum: the returned expression \<open>2 + 3\<close> evaluates to \<open>null\<close>, which is pushed
  as 0. For every behaviour of the number conversion, compiling the module whose \<open>init\<close>
  is \<open>return 2 + 3\<close> succeeds, \<open>init\<close> is lowered to the instructions \<open>PUSH null\<close>,
  \<open>RET\<close>, and its code, the first 7 bytes of the code section, is \<open>NOP\<close>, \<open>PUSH 0\<close>,
  \<open>RET\<close>.
\<close>

theorem unoptimized_sum_code:
  "generateFunctionIR tn
       (FunctionDeclaration ''init''
          [ReturnStatement (BinaryExpression (NumericLiteral 2 ''2'') ''+''
                                             (NumericLiteral 3 ''3''))])
       strings
     = ([Push JNull, Ret], [], strings)
   \<and> (\<exists>c. compile_source tn default_options (Some fold_source) = Inr c
         \<and> codeSize c = 9
         \<and> take 7 (drop 512 (binary c)) = map word_of_int [OP_NOP, OP_PUSH, 0, 0, 0, 0, OP_RET])"
proof -
  have ir: "generateFunctionIR tn
       (FunctionDeclaration ''init''
          [ReturnStatement (BinaryExpression (NumericLiteral 2 ''2'') ''+''
                                             (NumericLiteral 3 ''3''))])
       strings
     = ([Push JNull, Ret], [], strings)"
    by (simp add: ast_defs parse_defs js_simps OP_defs evaluateLiteral.simps)
  obtain h where h: "write_header tn default_options minimal_cg minimal_info
        minimal_symtab minimal_strings = Inr h"
    and c: "compile tn default_options (Parsed fold_parsed)
               = Inr \<lparr>binary = h @ minimal_code @ minimal_strings @ minimal_symtab @ minimal_strings,
                      info = minimal_info, codeSize = 9, dataSize = 10\<rparr>"
    using compile_small[OF validate_fold generate_fold_cg info_fold, of tn]
    by blast
  have l: "length h = 512" "length minimal_code = 9"
    using small_header(1)[OF h] by (simp_all add: minimal_code_def)
  have cs: "compile_source tn default_options (Some fold_source)
          = Inr \<lparr>binary = h @ minimal_code @ minimal_strings @ minimal_symtab @ minimal_strings,
                 info = minimal_info, codeSize = 9, dataSize = 10\<rparr>"
    by (simp add: compile_source_def parse_fold c)
  have "take 7 (drop 512 (h @ minimal_code @ minimal_strings @ minimal_symtab @ minimal_strings))
      = take 7 minimal_code" using l by simp
  then have "\<exists>c. compile_source tn default_options (Some fold_source) = Inr c
         \<and> codeSize c = 9
         \<and> take 7 (drop 512 (binary c)) = map word_of_int [OP_NOP, OP_PUSH, 0, 0, 0, 0, OP_RET]"
    unfolding cs by (simp add: minimal_code_def OP_defs)
  with ir show ?thesis by blast
qed

section \<open>The function offsets of the symbol table\<close>

text \<open>
  Claim C7, as the specification words it, does not hold: the offsets of the symbol table
  count from the start of the code section, not from the start of the file. In the
  compiled minimal module the header declares the code at offset 512 with 9 bytes and
  the symbol table at offset 531 with 24 bytes, and the value fields of its two records
  (at 531 + 4 and 531 + 16) are 0 and 7, both below 512.
\<close>

theorem symbol_offsets_below_code_offset:
  "\<exists>c. compile_source no_number default_options (Some minimal_source) = Inr c
      \<and> readUInt32LE (binary c) 116 = 512 \<and> readUInt32LE (binary c) 120 = 9
      \<and> readUInt32LE (binary c) 180 = 531 \<and> readUInt32LE (binary c) 184 = 24
      \<and> readUInt32LE (binary c) (531 + 4) = 0
      \<and> readUInt32LE (binary c) (531 + 16) = 7"
proof -
  obtain h where h: "write_header no_number default_options minimal_cg minimal_info
        minimal_symtab minimal_strings = Inr h"
    and c: "compile no_number default_options (Parsed minimal_parsed)
               = Inr \<lparr>binary = h @ minimal_code @ minimal_strings @ minimal_symtab @ minimal_strings,
                      info = minimal_info, codeSize = 9, dataSize = 10\<rparr>"
    using compile_small[OF validate_minimal generate_minimal_cg info_minimal_info, of no_number]
    by blast
  have "compile_source no_number default_options (Some minimal_source)
          = Inr \<lparr>binary = h @ minimal_code @ minimal_strings @ minimal_symtab @ minimal_strings,
                 info = minimal_info, codeSize = 9, dataSize = 10\<rparr>"
    by (simp add: compile_source_def parse_minimal c)
  then show ?thesis
    using small_sections[OF h] small_symbols[OF small_header(1)[OF h]] by simp
qed

text \<open>
  Claim C7, amended. For every compilation that succeeds, every function offset of the
  symbol table (the 32-bit number at offset 4 of each 12-byte record that lies within
  the \<open>symtab_size\<close> bytes at \<open>symtab_offset\<close>) is below \<open>code_size\<close>: it lies in
  \<open>[0, code_size)\<close>, an offset into the code section.
\<close>

theorem symbol_offsets_in_code:
  assumes "compile tn opts parseResult = Inr c"
    and "12 * i + 12 \<le> readUInt32LE (binary c) 184"
  shows "readUInt32LE (binary c) (readUInt32LE (binary c) 180 + 12 * i + 4)
           < readUInt32LE (binary c) 120"
proof -
  from assms(1) obtain p cg0 cg symtab h where
    g: "generate p = Inr cg0"
    and o: "(if opt_optimize opts then optimize cg0 else Inr cg0) = Inr cg"
    and s: "buildSymbolTable cg = Inr symtab"
    and h: "write_header tn opts cg (extractModuleInfo opts p) symtab (buildStrtab (cg_strings cg)) = Inr h"
    and b: "binary c = h @ cg_code cg @ cg_data cg @ symtab @ buildStrtab (cg_strings cg)"
    by (rule compile_Inr)
  let ?strtab = "buildStrtab (cg_strings cg)"
  let ?rest = "cg_code cg @ cg_data cg @ symtab @ ?strtab"
  have l: "length h = 512" using header_magic[OF h] by simp
  have code: "readUInt32LE (h @ ?rest) 120 = length (cg_code cg)"
    by (rule read_header[OF header_code_size[OF h]]) simp
  have symoff: "readUInt32LE (h @ ?rest) 180 = 512 + length (cg_code cg) + length (cg_data cg)"
    by (rule read_header[OF header_symtab_offset[OF h]]) simp
  have symsize: "readUInt32LE (h @ ?rest) 184 = length symtab"
    by (rule read_header[OF header_symtab_size[OF h]]) simp
  from s have entries: "symbol_entries 0 (cg_functions cg) = Inr symtab"
    by (simp add: buildSymbolTable_def)
  note layout = symbol_entries_Inr[OF entries]
  have i: "i < length (cg_functions cg)"
    using assms(2) layout unfolding b symsize by simp
  let ?off = "snd (cg_functions cg ! i)"
  have v: "take 4 (drop (12 * i + 4) symtab) = le32 ?off" "?off < 2 ^ 32"
    using layout i by simp_all
  have "?off \<in> snd ` set (cg_functions cg)" using i by simp
  then have "?off \<in> snd ` set (cg_functions cg0)" using optimize_Inr[OF o] by simp
  then have "?off < length (cg_code cg0)" using generate_offsets[OF g] by blast
  then have bound: "?off < length (cg_code cg)" using optimize_Inr[OF o] by simp
  have len: "length (h @ cg_code cg @ cg_data cg) = 512 + length (cg_code cg) + length (cg_data cg)"
    using l by simp
  have "readUInt32LE ((h @ cg_code cg @ cg_data cg) @ symtab @ ?strtab)
          (512 + length (cg_code cg) + length (cg_data cg) + (12 * i + 4)) = ?off"
    using assms(2) v unfolding b symsize by (intro read_section[OF len]) simp_all
  then have "readUInt32LE (h @ ?rest) (512 + length (cg_code cg) + length (cg_data cg) + 12 * i + 4) = ?off"
    by (simp add: add.assoc)
  then show ?thesis
    unfolding b code symoff using bound by simp
qed

theorem symbol_offsets_in_code_witness:
  "\<exists>c. compile no_number default_options (Parsed minimal_parsed) = Inr c
      \<and> readUInt32LE (binary c) 184 = 24
      \<and> readUInt32LE (binary c) (531 + 12 * 1 + 4) = 7
      \<and> readUInt32LE (binary c) (readUInt32LE (binary c) 180 + 12 * 1 + 4)
           < readUInt32LE (binary c) 120"
proof -
  obtain h where h: "write_header no_number default_options minimal_cg minimal_info
        minimal_symtab minimal_strings = Inr h"
    and c: "compile no_number default_options (Parsed minimal_parsed)
               = Inr \<lparr>binary = h @ minimal_code @ minimal_strings @ minimal_symtab @ minimal_strings,
                      info = minimal_info, codeSize = 9, dataSize = 10\<rparr>"
    using compile_small[OF validate_minimal generate_minimal_cg info_minimal_info, of no_number]
    by blast
  have s: "readUInt32LE (binary \<lparr>binary = h @ minimal_code @ minimal_strings @ minimal_symtab @ minimal_strings,
                      info = minimal_info, codeSize = 9, dataSize = 10\<rparr>) 184 = 24"
    using small_sections(4)[OF h] by simp
  from symbol_offsets_in_code[OF c, of 1] s small_symbols(2)[OF small_header(1)[OF h]]
  show ?thesis unfolding c by simp
qed

section \<open>The capabilities written to the header\<close>




end
